theory Spec2Isabelle
  imports Complex_Main
begin

section \<open>Conventions\<close>

text \<open>
  Python \<^verbatim>\<open>float\<close> values are modelled as \<^typ>\<open>real\<close>: the development is about the
  decision logic and the formulas of the services. Where a concrete decimal result depends on
  rounding (the Kelly fraction of scenario S1), the computation is repeated in IEEE double
  precision. Every place where the
  source can raise is a branch of the model (\<open>Inl\<close> of a \<open>py_error\<close>, or of the text of a
  broker's exception). Timestamps
  (\<^verbatim>\<open>datetime\<close>) are integers on one common clock.
\<close>

datatype py_error = ZeroDivisionError

section \<open>Risk managers (gem\_hunter/risk\_manager.py, crypto\_hunter/risk\_manager.py)\<close>

text \<open>The attributes read from the config dictionary in \<^verbatim>\<open>__init__\<close>.\<close>

record risk_config =
  allocated_capital :: real
  max_positions :: int
  max_position_pct :: real
  kelly_multiplier :: real
  daily_loss_limit_pct :: real
  stop_loss_pct :: real
  take_profit_pct :: real

record crypto_risk_config = risk_config +
  max_hold_hours :: real

text \<open>One entry of \<^verbatim>\<open>_trade_history\<close>; only the keys the statistics read.\<close>

record trade_entry =
  pnl :: real
  pnl_pct :: real

record hist_stats =
  st_win_rate :: real
  st_avg_win :: real
  st_avg_loss :: real
  st_total_trades :: nat

text \<open>
  \<^verbatim>\<open>_calculate_historical_stats\<close>; the two managers differ only in the default win rate
  (0.50 for equities, 0.45 for crypto), passed as \<open>dflt\<close>.
\<close>

definition calculate_historical_stats :: "real \<Rightarrow> 'a risk_config_scheme \<Rightarrow> trade_entry list \<Rightarrow> hist_stats" where
  "calculate_historical_stats dflt cfg history =
     (if history = [] then
        \<lparr>st_win_rate = dflt, st_avg_win = take_profit_pct cfg,
         st_avg_loss = stop_loss_pct cfg, st_total_trades = 0\<rparr>
      else
        let wins = filter (\<lambda>t. pnl t > 0) history;
            losses = filter (\<lambda>t. pnl t \<le> 0) history;
            win_rate = real (length wins) / real (length history);
            avg_win = (if wins \<noteq> [] then sum_list (map pnl_pct wins) / real (length wins)
                       else take_profit_pct cfg);
            avg_loss = (if losses \<noteq> [] then \<bar>sum_list (map pnl_pct losses) / real (length losses)\<bar>
                        else stop_loss_pct cfg)
        in \<lparr>st_win_rate = win_rate, st_avg_win = avg_win,
            st_avg_loss = avg_loss, st_total_trades = length history\<rparr>)"

text \<open>
  The arguments of \<^verbatim>\<open>kelly_fraction\<close> default to \<^verbatim>\<open>None\<close>; if any of them is
  \<^verbatim>\<open>None\<close> all three come from the history.
\<close>

definition kelly_inputs :: "real \<Rightarrow> 'a risk_config_scheme \<Rightarrow> trade_entry list \<Rightarrow>
    real option \<Rightarrow> real option \<Rightarrow> real option \<Rightarrow> real \<times> real \<times> real" where
  "kelly_inputs dflt cfg history win_rate avg_win avg_loss =
     (case (win_rate, avg_win, avg_loss) of
        (Some p, Some w, Some l) \<Rightarrow> (p, w, l)
      | _ \<Rightarrow> (let stats = calculate_historical_stats dflt cfg history
             in (st_win_rate stats, st_avg_win stats, st_avg_loss stats)))"

text \<open>
  \<^verbatim>\<open>RiskManager.kelly_fraction\<close> (equities), over the reals; its evaluation in double precision
  is \<open>RiskManager_kelly_fraction_f64\<close> below. The two divisions of the Kelly formula raise
  on a zero divisor, and so does the argument \<^verbatim>\<open>raw_kelly=kelly / self.kelly_multiplier\<close> of
  the debug log, which is evaluated before the call.
\<close>

definition RiskManager_kelly_fraction :: "risk_config \<Rightarrow> trade_entry list \<Rightarrow>
    real option \<Rightarrow> real option \<Rightarrow> real option \<Rightarrow> py_error + real" where
  "RiskManager_kelly_fraction cfg history win_rate avg_win avg_loss =
     (case kelly_inputs 0.5 cfg history win_rate avg_win avg_loss of (p, w, l0) \<Rightarrow>
        let l = (if l0 \<le> 0 then stop_loss_pct cfg else l0) in
        if l = 0 then Inl ZeroDivisionError
        else let b = w / l; q = 1 - p in
          if b = 0 then Inl ZeroDivisionError
          else let kelly = (b * p - q) / b;
                   kelly = kelly * kelly_multiplier cfg;
                   kelly = max 0 (min kelly (max_position_pct cfg))
               in if kelly_multiplier cfg = 0 then Inl ZeroDivisionError
                  else Inr kelly)"

text \<open>
  \<^verbatim>\<open>CryptoRiskManager.kelly_fraction\<close>: the cap is \<^verbatim>\<open>min(self.max_position_pct, 0.15)\<close>
  and the logged division is guarded.
\<close>

definition CryptoRiskManager_kelly_fraction :: "crypto_risk_config \<Rightarrow> trade_entry list \<Rightarrow>
    real option \<Rightarrow> real option \<Rightarrow> real option \<Rightarrow> py_error + real" where
  "CryptoRiskManager_kelly_fraction cfg history win_rate avg_win avg_loss =
     (case kelly_inputs 0.45 cfg history win_rate avg_win avg_loss of (p, w, l0) \<Rightarrow>
        let l = (if l0 \<le> 0 then stop_loss_pct cfg else l0) in
        if l = 0 then Inl ZeroDivisionError
        else let b = w / l; q = 1 - p in
          if b = 0 then Inl ZeroDivisionError
          else let kelly = (b * p - q) / b;
                   kelly = kelly * kelly_multiplier cfg;
                   max_kelly = min (max_position_pct cfg) 0.15;
                   kelly = max 0 (min kelly max_kelly)
               in Inr kelly)"

text \<open>
  \<^verbatim>\<open>calculate_stop_loss\<close> and \<^verbatim>\<open>calculate_take_profit\<close>. The optional argument is tested
  for truth: \<^verbatim>\<open>None\<close> and \<^verbatim>\<open>0.0\<close> both take the percentage branch.
\<close>

definition RiskManager_calculate_stop_loss :: "'a risk_config_scheme \<Rightarrow> real \<Rightarrow> real option \<Rightarrow> real" where
  "RiskManager_calculate_stop_loss cfg entry_price atr =
     (case atr of
        Some a \<Rightarrow> (if a \<noteq> 0 then entry_price - 2 * a
                   else entry_price * (1 - stop_loss_pct cfg))
      | None \<Rightarrow> entry_price * (1 - stop_loss_pct cfg))"

definition CryptoRiskManager_calculate_stop_loss :: "'a risk_config_scheme \<Rightarrow> real \<Rightarrow> real option \<Rightarrow> real" where
  "CryptoRiskManager_calculate_stop_loss cfg entry_price volatility =
     (case volatility of
        Some v \<Rightarrow> (if v \<noteq> 0 \<and> v > 0 then entry_price - 2 * v
                   else entry_price * (1 - stop_loss_pct cfg))
      | None \<Rightarrow> entry_price * (1 - stop_loss_pct cfg))"

text \<open>The body of \<^verbatim>\<open>calculate_take_profit\<close> is the same in both managers.\<close>

definition calculate_take_profit :: "'a risk_config_scheme \<Rightarrow> real \<Rightarrow> real option \<Rightarrow> real" where
  "calculate_take_profit cfg entry_price stop_loss =
     (case stop_loss of
        Some s \<Rightarrow> (if s \<noteq> 0 then (let risk = entry_price - s in entry_price + risk * 2.5)
                   else entry_price * (1 + take_profit_pct cfg))
      | None \<Rightarrow> entry_price * (1 + take_profit_pct cfg))"

text \<open>
  \<^verbatim>\<open>RiskManager.should_exit\<close> (equities): three rules, the hold limit is the parameter
  \<^verbatim>\<open>max_hold_days\<close> and its reason is the string \<^verbatim>\<open>"max_hold_days"\<close>.
\<close>

definition RiskManager_should_exit :: "real \<Rightarrow> real \<Rightarrow> real \<Rightarrow> real \<Rightarrow> int \<Rightarrow> int \<Rightarrow> bool \<times> string option" where
  "RiskManager_should_exit current_price entry_price stop_loss take_profit days_held max_hold_days =
     (if current_price \<le> stop_loss then (True, Some ''stop_loss'')
      else if current_price \<ge> take_profit then (True, Some ''take_profit'')
      else if days_held \<ge> max_hold_days then (True, Some ''max_hold_days'')
      else (False, None))"

text \<open>
  \<^verbatim>\<open>CryptoRiskManager.should_exit\<close>. The profit percentage divides by the entry price
  once the first three rules have not fired.
\<close>

definition CryptoRiskManager_should_exit :: "crypto_risk_config \<Rightarrow> real \<Rightarrow> real \<Rightarrow> real \<Rightarrow> real \<Rightarrow> real \<Rightarrow>
    py_error + bool \<times> string option" where
  "CryptoRiskManager_should_exit cfg current_price entry_price stop_loss take_profit hours_held =
     (if current_price \<le> stop_loss then Inr (True, Some ''stop_loss'')
      else if current_price \<ge> take_profit then Inr (True, Some ''take_profit'')
      else if hours_held \<ge> max_hold_hours cfg then Inr (True, Some ''max_hold_time'')
      else if entry_price = 0 then Inl ZeroDivisionError
      else let pnl_pct = (current_price - entry_price) / entry_price in
        if pnl_pct > 0.15 then
          (if current_price \<le> entry_price * 1.01 then Inr (True, Some ''trailing_stop'')
           else Inr (False, None))
        else Inr (False, None))"

text \<open>
  The exit rule in the words of the specification (section 4.6), for comparison with the two
  functions above: \<open>shouldExit(price, entry, stop, target, held)\<close> with the configured
  maximum hold.
\<close>

definition shouldExit_spec :: "real \<Rightarrow> real \<Rightarrow> real \<Rightarrow> real \<Rightarrow> real \<Rightarrow> real \<Rightarrow> bool \<times> string option" where
  "shouldExit_spec max_hold price entry stop target held =
     (if price \<le> stop then (True, Some ''stop_loss'')
      else if price \<ge> target then (True, Some ''take_profit'')
      else if held \<ge> max_hold then (True, Some ''max_hold_time'')
      else if (price - entry) / entry > 0.15 \<and> price \<le> entry * 1.01 then (True, Some ''trailing_stop'')
      else (False, None))"

text \<open>
  The Kelly fraction in the words of the specification: \<open>b = W/L\<close> with \<open>L\<close> replaced by the
  default stop-loss percentage when it is not positive, \<open>k = (b p - (1 - p))/b\<close>, multiplied
  by the Kelly multiplier and clamped to \<open>[0, min(max_position_pct, cap)]\<close>.
\<close>

definition kelly_spec :: "real \<Rightarrow> 'a risk_config_scheme \<Rightarrow> real \<Rightarrow> real \<Rightarrow> real \<Rightarrow> real" where
  "kelly_spec cap cfg p w l =
     (let l' = (if l \<le> 0 then stop_loss_pct cfg else l);
          b = w / l';
          k = (b * p - (1 - p)) / b
      in max 0 (min (k * kelly_multiplier cfg) (min (max_position_pct cfg) cap)))"

text \<open>Concrete configurations: scenario S1/S2 of the specification and the crypto defaults.\<close>

definition S1_config :: risk_config where
  "S1_config = \<lparr>allocated_capital = 10000, max_positions = 5, max_position_pct = 0.25,
     kelly_multiplier = 0.5, daily_loss_limit_pct = 0.05, stop_loss_pct = 0.08,
     take_profit_pct = 0.20\<rparr>"

definition crypto_default_config :: crypto_risk_config where
  "crypto_default_config = \<lparr>allocated_capital = 5000, max_positions = 5, max_position_pct = 0.20,
     kelly_multiplier = 0.5, daily_loss_limit_pct = 0.05, stop_loss_pct = 0.10,
     take_profit_pct = 0.25, max_hold_hours = 168\<rparr>"

subsection \<open>The Kelly fraction in double precision\<close>

text \<open>
  The definitions above compute over the reals. For the concrete scenario S1 the arithmetic of
  the source is followed to the bit: Python's \<^verbatim>\<open>float\<close> is the IEEE 754 binary64 format, each
  operation returning the representable number nearest to the exact result, ties going to the
  even significand. \<open>round_double\<close> is that rounding for numbers in the normal range (53
  significant bits; overflow and subnormal numbers are not modelled).
\<close>

definition round_half_even :: "real \<Rightarrow> int" where
  "round_half_even y =
     (let f = \<lfloor>y\<rfloor>; d = y - of_int f
      in if d < 1 / 2 then f else if d > 1 / 2 then f + 1 else if even f then f else f + 1)"

definition round_double :: "real \<Rightarrow> real" where
  "round_double x =
     (if x = 0 then 0
      else let e = \<lfloor>log 2 \<bar>x\<bar>\<rfloor>; u = 2 powr (of_int e - 52)
           in sgn x * of_int (round_half_even (\<bar>x\<bar> / u)) * u)"

definition f64_sub :: "real \<Rightarrow> real \<Rightarrow> real" where
  "f64_sub a b = round_double (a - b)"

definition f64_mul :: "real \<Rightarrow> real \<Rightarrow> real" where
  "f64_mul a b = round_double (a * b)"

definition f64_div :: "real \<Rightarrow> real \<Rightarrow> py_error + real" where
  "f64_div a b = (if b = 0 then Inl ZeroDivisionError else Inr (round_double (a / b)))"

text \<open>
  A configuration whose fractions are the doubles nearest to the decimal literals that were
  written for them.
\<close>

definition f64_config :: "risk_config \<Rightarrow> risk_config" where
  "f64_config cfg =
     cfg\<lparr>max_position_pct := round_double (max_position_pct cfg),
         kelly_multiplier := round_double (kelly_multiplier cfg),
         daily_loss_limit_pct := round_double (daily_loss_limit_pct cfg),
         stop_loss_pct := round_double (stop_loss_pct cfg),
         take_profit_pct := round_double (take_profit_pct cfg)\<rparr>"

text \<open>
  \<^verbatim>\<open>RiskManager.kelly_fraction(win_rate, avg_win, avg_loss)\<close> called with three floats, operation
  by operation in double precision: \<^verbatim>\<open>b = avg_win / avg_loss\<close>, \<^verbatim>\<open>q = 1 - p\<close>,
  \<^verbatim>\<open>kelly = (b * p - q) / b\<close>, \<^verbatim>\<open>kelly *= self.kelly_multiplier\<close>, the clamp, and the division
  \<^verbatim>\<open>kelly / self.kelly_multiplier\<close> of the debug log.
\<close>

definition RiskManager_kelly_fraction_f64 :: "risk_config \<Rightarrow> real \<Rightarrow> real \<Rightarrow> real \<Rightarrow> py_error + real" where
  "RiskManager_kelly_fraction_f64 cfg win_rate avg_win avg_loss =
     (let l = (if avg_loss \<le> 0 then stop_loss_pct cfg else avg_loss) in
      case f64_div avg_win l of
        Inl e \<Rightarrow> Inl e
      | Inr b \<Rightarrow>
          let p = win_rate; q = f64_sub 1 p in
          case f64_div (f64_sub (f64_mul b p) q) b of
            Inl e \<Rightarrow> Inl e
          | Inr kelly \<Rightarrow>
              let kelly = f64_mul kelly (kelly_multiplier cfg);
                  kelly = max 0 (min kelly (max_position_pct cfg))
              in case f64_div kelly (kelly_multiplier cfg) of
                   Inl e \<Rightarrow> Inl e
                 | Inr raw_kelly \<Rightarrow> Inr kelly)"

section \<open>Recommendation lifecycle (recommendation\_service.py)\<close>

datatype RecommendationStatus = PENDING | APPROVED | REJECTED | EXECUTED | EXPIRED

fun status_value :: "RecommendationStatus \<Rightarrow> string" where
  "status_value PENDING = ''pending''"
| "status_value APPROVED = ''approved''"
| "status_value REJECTED = ''rejected''"
| "status_value EXECUTED = ''executed''"
| "status_value EXPIRED = ''expired''"

text \<open>
  A row of the table \<^verbatim>\<open>trade_recommendations\<close>, with the columns the lifecycle reads or
  writes; \<^verbatim>\<open>expires_at\<close> is set by \<^verbatim>\<open>create_recommendation\<close> on every row. The table is
  the list of its rows, \<^verbatim>\<open>id\<close> being the primary key.
\<close>

record recommendation =
  rec_id :: int
  status :: RecommendationStatus
  expires_at :: int
  action :: string
  short_strike :: "real option"
  long_strike :: "real option"
  expiration :: "string option"
  contracts :: "int option"
  estimated_credit :: "real option"
  approved_at :: "int option"
  rejected_at :: "int option"
  rejection_reason :: "string option"
  executed_at :: "int option"
  order_id :: "string option"
  execution_price :: "real option"

type_synonym rec_table = "recommendation list"

definition get_recommendation_by_id :: "rec_table \<Rightarrow> int \<Rightarrow> recommendation option" where
  "get_recommendation_by_id db recommendation_id = find (\<lambda>r. rec_id r = recommendation_id) db"

text \<open>Assigning to the attributes of the loaded row and committing.\<close>

definition commit_row :: "rec_table \<Rightarrow> int \<Rightarrow> (recommendation \<Rightarrow> recommendation) \<Rightarrow> rec_table" where
  "commit_row db recommendation_id f = map (\<lambda>r. if rec_id r = recommendation_id then f r else r) db"

text \<open>
  \<^verbatim>\<open>approve_recommendation\<close>: the new table and the returned row (\<^verbatim>\<open>None\<close> when the approval
  is refused); \<open>now\<close> is \<^verbatim>\<open>datetime.utcnow()\<close>.
\<close>

definition approve_recommendation :: "rec_table \<Rightarrow> int \<Rightarrow> int \<Rightarrow> rec_table \<times> recommendation option" where
  "approve_recommendation db recommendation_id now =
     (case get_recommendation_by_id db recommendation_id of
        None \<Rightarrow> (db, None)
      | Some r \<Rightarrow>
          if status r \<noteq> PENDING then (db, None)
          else if expires_at r < now then
            (commit_row db recommendation_id (\<lambda>r. r\<lparr>status := EXPIRED\<rparr>), None)
          else
            (commit_row db recommendation_id (\<lambda>r. r\<lparr>status := APPROVED, approved_at := Some now\<rparr>),
             Some (r\<lparr>status := APPROVED, approved_at := Some now\<rparr>)))"

definition reject_recommendation :: "rec_table \<Rightarrow> int \<Rightarrow> string option \<Rightarrow> int \<Rightarrow> rec_table \<times> recommendation option" where
  "reject_recommendation db recommendation_id reason now =
     (case get_recommendation_by_id db recommendation_id of
        None \<Rightarrow> (db, None)
      | Some r \<Rightarrow>
          if status r \<noteq> PENDING then (db, None)
          else
            (commit_row db recommendation_id
               (\<lambda>r. r\<lparr>status := REJECTED, rejected_at := Some now, rejection_reason := reason\<rparr>),
             Some (r\<lparr>status := REJECTED, rejected_at := Some now, rejection_reason := reason\<rparr>)))"

text \<open>
  The broker as \<^verbatim>\<open>execute_recommendation\<close> sees it: whether it is connected, what
  \<^verbatim>\<open>connect()\<close> answers, and what \<^verbatim>\<open>place_spread_order\<close> answers for the right \<^verbatim>\<open>"P"\<close> or
  \<^verbatim>\<open>"C"\<close>: an order id, \<^verbatim>\<open>None\<close>, or an exception with its text (\<open>Inl\<close>).
\<close>

record ib_client =
  ib_is_connected :: bool
  ib_connect :: bool
  ib_place_spread_order :: "recommendation \<Rightarrow> string \<Rightarrow> string + string option"

text \<open>The dictionary \<^verbatim>\<open>execute_recommendation\<close> returns.\<close>

datatype exec_result =
    ExecSuccess string "real option" string
  | ExecFailure string

text \<open>
  The \<^verbatim>\<open>if/elif\<close> chain on the action: the order id and the execution price, \<open>Inr None\<close>
  for an unknown action, \<open>Inl\<close> for an exception of the broker.
\<close>

definition dispatch_action :: "ib_client \<Rightarrow> recommendation \<Rightarrow> string + (string option \<times> real option) option" where
  "dispatch_action ib r =
     (if action r = ''open_put_spread'' then
        (case ib_place_spread_order ib r ''P'' of
           Inl e \<Rightarrow> Inl e
         | Inr oid \<Rightarrow> Inr (Some (oid, estimated_credit r)))
      else if action r = ''close_put_spread'' then Inr (Some (Some ''simulated_close'', None))
      else if action r = ''open_call_spread'' then
        (case ib_place_spread_order ib r ''C'' of
           Inl e \<Rightarrow> Inl e
         | Inr oid \<Rightarrow> Inr (Some (oid, estimated_credit r)))
      else if action r = ''open_long_call'' then Inr (Some (Some ''simulated_long_call'', None))
      else Inr None)"

definition execute_recommendation :: "ib_client \<Rightarrow> rec_table \<Rightarrow> int \<Rightarrow> int \<Rightarrow> rec_table \<times> exec_result" where
  "execute_recommendation ib db recommendation_id now =
     (case get_recommendation_by_id db recommendation_id of
        None \<Rightarrow> (db, ExecFailure ''Recommendation not found'')
      | Some r \<Rightarrow>
          if status r \<noteq> APPROVED then
            (db, ExecFailure (''Recommendation must be approved first. Current status: ''
                              @ status_value (status r)))
          else if \<not> ib_is_connected ib \<and> \<not> ib_connect ib then
            (db, ExecFailure ''Failed to connect to Interactive Brokers'')
          else
            (case dispatch_action ib r of
               Inl e \<Rightarrow> (db, ExecFailure e)
             | Inr None \<Rightarrow> (db, ExecFailure (''Unknown action: '' @ action r))
             | Inr (Some (oid, price)) \<Rightarrow>
                 (case oid of
                    None \<Rightarrow> (db, ExecFailure ''Order placement failed'')
                  | Some i \<Rightarrow>
                      if i = [] then (db, ExecFailure ''Order placement failed'')
                      else
                        (commit_row db recommendation_id
                           (\<lambda>r. r\<lparr>status := EXECUTED, executed_at := Some now,
                                   order_id := Some i, execution_price := price\<rparr>),
                         ExecSuccess i price (action r)))))"

text \<open>
  \<^verbatim>\<open>expire_old_recommendations\<close>: one \<^verbatim>\<open>UPDATE ... WHERE status = PENDING AND expires_at < now\<close>;
  the new table and the row count.
\<close>

definition expire_old_recommendations :: "rec_table \<Rightarrow> int \<Rightarrow> rec_table \<times> nat" where
  "expire_old_recommendations db now =
     (map (\<lambda>r. if status r = PENDING \<and> expires_at r < now then r\<lparr>status := EXPIRED\<rparr> else r) db,
      length (filter (\<lambda>r. status r = PENDING \<and> expires_at r < now) db))"

text \<open>A recommendation created at time 0 that expires at time 4, for the examples.\<close>

definition sample_rec :: recommendation where
  "sample_rec = \<lparr>rec_id = 1, status = PENDING, expires_at = 4, action = ''open_put_spread'',
     short_strike = Some 540, long_strike = Some 515, expiration = Some ''20260109'',
     contracts = Some 1, estimated_credit = Some 0.60, approved_at = None, rejected_at = None,
     rejection_reason = None, executed_at = None, order_id = None, execution_price = None\<rparr>"

definition sample_ib :: ib_client where
  "sample_ib = \<lparr>ib_is_connected = True, ib_connect = True,
                 ib_place_spread_order = (\<lambda>r right. Inr (Some ''X''))\<rparr>"

section \<open>Regime detection (orchestrator.py)\<close>

datatype RegimeType = NORMAL_BULL | DEFENSE_TRIGGER | RECOVERY_MODE | RECOVERY_COMPLETE

record regime =
  regime_type :: RegimeType
  recovery_strike :: "real option"

record market_data =
  qqq_price :: real
  vix :: real
  iv_7day_atm :: real
  source :: string

text \<open>
  \<^verbatim>\<open>get_market_data\<close>: \<open>ib_connected\<close> is the client's state after \<^verbatim>\<open>ensure_ib_connected\<close>,
  \<open>quote\<close> what \<^verbatim>\<open>get_qqq_price\<close> answers (\<open>Inl\<close> an exception). Both branches carry the
  constant VIX 17.0.
\<close>

definition get_market_data :: "bool \<Rightarrow> string + real option \<Rightarrow> market_data" where
  "get_market_data ib_connected quote =
     (let mock = \<lparr>qqq_price = 562.43, vix = 17.0, iv_7day_atm = 21.4, source = ''mock''\<rparr> in
      if ib_connected then
        (case quote of
           Inr (Some price) \<Rightarrow>
             if price \<noteq> 0 then \<lparr>qqq_price = price, vix = 17.0, iv_7day_atm = 21.4, source = ''live''\<rparr>
             else mock
         | _ \<Rightarrow> mock)
      else mock)"

text \<open>
  The body of \<^verbatim>\<open>detect_regime\<close> after the market data has been read;
  \<open>threshold\<close> is \<^verbatim>\<open>settings.VIX_SHUTDOWN_THRESHOLD\<close>.
\<close>

definition classify_regime :: "real \<Rightarrow> regime option \<Rightarrow> real option \<Rightarrow> market_data \<Rightarrow> RegimeType" where
  "classify_regime threshold current_regime last_short_put_strike md =
     (let current_qqq_price = qqq_price md; current_vix = vix md in
      if current_vix > threshold then DEFENSE_TRIGGER
      else case current_regime of
        None \<Rightarrow> NORMAL_BULL
      | Some cr \<Rightarrow>
          if regime_type cr = RECOVERY_MODE then
            (case recovery_strike cr of
               Some s \<Rightarrow> if s \<noteq> 0 \<and> current_qqq_price > s then RECOVERY_COMPLETE else RECOVERY_MODE
             | None \<Rightarrow> RECOVERY_MODE)
          else
            (case last_short_put_strike of
               Some s \<Rightarrow> if s \<noteq> 0 \<and> current_qqq_price < s then DEFENSE_TRIGGER else NORMAL_BULL
             | None \<Rightarrow> NORMAL_BULL))"

definition detect_regime :: "real \<Rightarrow> regime option \<Rightarrow> real option \<Rightarrow> bool \<Rightarrow> string + real option \<Rightarrow> RegimeType" where
  "detect_regime threshold current_regime last_short_put_strike ib_connected quote =
     classify_regime threshold current_regime last_short_put_strike (get_market_data ib_connected quote)"

text \<open>\<^verbatim>\<open>Settings.VIX_SHUTDOWN_THRESHOLD\<close>, the default.\<close>

definition VIX_SHUTDOWN_THRESHOLD :: real where
  "VIX_SHUTDOWN_THRESHOLD = 45.0"

section \<open>Trend analyser (crypto\_hunter/trend\_analyzer.py)\<close>

datatype TrendDirection = BULLISH | BEARISH | NEUTRAL

fun direction_value :: "TrendDirection \<Rightarrow> string" where
  "direction_value BULLISH = ''bullish''"
| "direction_value BEARISH = ''bearish''"
| "direction_value NEUTRAL = ''neutral''"

text \<open>
  \<^verbatim>\<open>TrendSignal\<close>, without its \<^verbatim>\<open>description\<close>, a text for the reader that no computation
  looks at.
\<close>

record TrendSignal =
  indicator :: string
  signal :: string
  sig_value :: real

record TrendAnalysis =
  symbol :: string
  direction :: TrendDirection
  strength :: real
  score :: real
  ta_current_price :: real
  support_levels :: "real list"
  resistance_levels :: "real list"
  ema_9 :: "real option"
  ema_21 :: "real option"
  ema_50 :: "real option"
  ema_200 :: "real option"
  rsi :: "real option"
  macd_value :: "real option"
  macd_signal :: "real option"
  macd_histogram :: "real option"
  bb_upper :: "real option"
  bb_middle :: "real option"
  bb_lower :: "real option"
  signals :: "TrendSignal list"
  summary :: string
  timestamp :: int

record analyzer_config =
  rsi_oversold :: real
  rsi_overbought :: real

text \<open>The slice \<^verbatim>\<open>xs[-n:]\<close> for \<open>n > 0\<close>: the last \<open>n\<close> elements, all of them if there are fewer.\<close>

definition last_n :: "nat \<Rightarrow> 'a list \<Rightarrow> 'a list" where
  "last_n n xs = drop (length xs - n) xs"

text \<open>\<^verbatim>\<open>_calculate_ema\<close>; every caller passes a positive constant period.\<close>

definition calculate_ema :: "real list \<Rightarrow> nat \<Rightarrow> real option" where
  "calculate_ema prices period =
     (if length prices < period then None
      else let multiplier = 2 / (real period + 1);
               ema = sum_list (take period prices) / real period
           in Some (foldl (\<lambda>ema price. price * multiplier + ema * (1 - multiplier))
                          ema (drop period prices)))"

text \<open>
  \<^verbatim>\<open>_calculate_rsi\<close>. Gains and losses are non-negative, so \<open>1 + rs \<ge> 1\<close> and the last
  division never has a zero divisor.
\<close>

definition calculate_rsi :: "real list \<Rightarrow> nat \<Rightarrow> real option" where
  "calculate_rsi prices period =
     (if length prices < period + 1 then None
      else let deltas = map (\<lambda>i. prices ! i - prices ! (i - 1)) [1..<length prices];
               gains = map (\<lambda>d. if d > 0 then d else 0) deltas;
               losses = map (\<lambda>d. if d < 0 then - d else 0) deltas;
               avg_gain = sum_list (last_n period gains) / real period;
               avg_loss = sum_list (last_n period losses) / real period
           in if avg_loss = 0 then Some 100
              else let rs = avg_gain / avg_loss in Some (100 - 100 / (1 + rs)))"

definition calculate_macd :: "real list \<Rightarrow> nat \<Rightarrow> nat \<Rightarrow> nat \<Rightarrow> real option \<times> real option \<times> real option" where
  "calculate_macd prices fast slow sig_period =
     (if length prices < slow + sig_period then (None, None, None)
      else case (calculate_ema prices fast, calculate_ema prices slow) of
        (Some ema_fast, Some ema_slow) \<Rightarrow>
          let macd_line = ema_fast - ema_slow;
              signal_line = macd_line * 0.9;
              histogram = macd_line - signal_line
          in (Some macd_line, Some signal_line, Some histogram)
      | _ \<Rightarrow> (None, None, None))"

text \<open>\<^verbatim>\<open>_calculate_bollinger_bands\<close>; \<^verbatim>\<open>variance ** 0.5\<close> is the square root of a non-negative number.\<close>

definition calculate_bollinger_bands :: "real list \<Rightarrow> nat \<Rightarrow> real \<Rightarrow> real option \<times> real option \<times> real option" where
  "calculate_bollinger_bands prices period std_dev =
     (if length prices < period then (None, None, None)
      else let recent = last_n period prices;
               middle = sum_list recent / real period;
               variance = sum_list (map (\<lambda>p. (p - middle)\<^sup>2) recent) / real period;
               std = sqrt variance;
               upper = middle + std * std_dev;
               lower = middle - std * std_dev
           in (Some upper, Some middle, Some lower))"

definition find_support_levels :: "real list \<Rightarrow> nat \<Rightarrow> real list" where
  "find_support_levels prices num_levels =
     (if length prices < 10 then []
      else let minima = map (\<lambda>i. prices ! i)
                 (filter (\<lambda>i. prices ! i < prices ! (i - 1) \<and> prices ! i < prices ! (i + 1))
                         [1..<length prices - 1])
           in if minima = [] then [fold min (tl prices) (hd prices)]
              else take num_levels (sort minima))"

definition find_resistance_levels :: "real list \<Rightarrow> nat \<Rightarrow> real list" where
  "find_resistance_levels prices num_levels =
     (if length prices < 10 then []
      else let maxima = map (\<lambda>i. prices ! i)
                 (filter (\<lambda>i. prices ! i > prices ! (i - 1) \<and> prices ! i > prices ! (i + 1))
                         [1..<length prices - 1])
           in if maxima = [] then [fold max (tl prices) (hd prices)]
              else take num_levels (rev (sort maxima)))"

text \<open>\<^verbatim>\<open>_determine_trend\<close>: the direction and the strength.\<close>

definition determine_trend :: "TrendSignal list \<Rightarrow> TrendDirection \<times> real" where
  "determine_trend sigs =
     (if sigs = [] then (NEUTRAL, 0)
      else let bullish_count = length (filter (\<lambda>s. signal s = ''bullish'') sigs);
               bearish_count = length (filter (\<lambda>s. signal s = ''bearish'') sigs);
               total = length sigs
           in if bullish_count > bearish_count then
                (BULLISH, (real bullish_count / real total) * 100)
              else if bearish_count > bullish_count then
                (BEARISH, (real bearish_count / real total) * 100)
              else (NEUTRAL, 50))"

text \<open>\<^verbatim>\<open>_calculate_score\<close>; the direction is a parameter the body does not read.\<close>

definition calculate_score :: "TrendSignal list \<Rightarrow> TrendDirection \<Rightarrow> real \<Rightarrow> real" where
  "calculate_score sigs dir str =
     (if sigs = [] then 50
      else let bullish_count = length (filter (\<lambda>s. signal s = ''bullish'') sigs);
               total = length sigs;
               base_score = 50 + (real bullish_count / real total - 0.5) * 100;
               sc = base_score * (0.5 + str / 200)
           in max 0 (min 100 sc))"

text \<open>\<^verbatim>\<open>", ".join(...)\<close> and \<^verbatim>\<open>str.strip()\<close> on ASCII text.\<close>

fun join_str :: "string \<Rightarrow> string list \<Rightarrow> string" where
  "join_str sep [] = []"
| "join_str sep [x] = x"
| "join_str sep (x # y # ys) = x @ sep @ join_str sep (y # ys)"

definition is_space :: "char \<Rightarrow> bool" where
  "is_space c = (c \<in> set [CHR '' '', CHR 0x09, CHR 0x0A, CHR 0x0B, CHR 0x0C, CHR 0x0D])"

definition py_strip :: "string \<Rightarrow> string" where
  "py_strip s = rev (dropWhile is_space (rev (dropWhile is_space s)))"

text \<open>\<^verbatim>\<open>_generate_summary\<close>; the first word is \<^verbatim>\<open>strength_desc.title()\<close>.\<close>

definition generate_summary :: "TrendDirection \<Rightarrow> real \<Rightarrow> TrendSignal list \<Rightarrow> string" where
  "generate_summary dir str sigs =
     (let strength_desc_title = (if str < 40 then ''Weak'' else if str < 70 then ''Moderate'' else ''Strong'');
          bullish = filter (\<lambda>s. signal s = ''bullish'') sigs;
          bearish = filter (\<lambda>s. signal s = ''bearish'') sigs;
          s0 = strength_desc_title @ '' '' @ direction_value dir @ '' trend. '';
          s1 = (if bullish \<noteq> [] then s0 @ ''Bullish signals: '' @ join_str '', '' (map indicator bullish) @ ''. ''
                else s0);
          s2 = (if bearish \<noteq> [] then s1 @ ''Bearish signals: '' @ join_str '', '' (map indicator bearish) @ ''. ''
                else s1)
      in py_strip s2)"

text \<open>\<^verbatim>\<open>_empty_analysis\<close>, the insufficient-data envelope; \<open>now\<close> is \<^verbatim>\<open>datetime.now()\<close>.\<close>

definition empty_analysis :: "string \<Rightarrow> real \<Rightarrow> int \<Rightarrow> TrendAnalysis" where
  "empty_analysis sym_name price now =
     \<lparr>symbol = sym_name, direction = NEUTRAL, strength = 0, score = 50, ta_current_price = price,
      support_levels = [], resistance_levels = [],
      ema_9 = None, ema_21 = None, ema_50 = None, ema_200 = None,
      rsi = None, macd_value = None, macd_signal = None, macd_histogram = None,
      bb_upper = None, bb_middle = None, bb_lower = None,
      signals = [], summary = ''Insufficient data for trend analysis'', timestamp = now\<rparr>"

text \<open>
  The truth value of an optional float: \<^verbatim>\<open>None\<close> and \<^verbatim>\<open>0.0\<close> are false.
\<close>

definition truthy :: "real option \<Rightarrow> bool" where
  "truthy x = (case x of None \<Rightarrow> False | Some v \<Rightarrow> v \<noteq> 0)"

text \<open>The five blocks of \<^verbatim>\<open>analyze\<close> that append to \<^verbatim>\<open>signals\<close>, in their order.\<close>

definition ema_cross_signals :: "real option \<Rightarrow> real option \<Rightarrow> TrendSignal list" where
  "ema_cross_signals e9 e21 =
     (if truthy e9 \<and> truthy e21 then
        (if the e9 > the e21 then
           [\<lparr>indicator = ''EMA Cross'', signal = ''bullish'', sig_value = the e9 - the e21\<rparr>]
         else [\<lparr>indicator = ''EMA Cross'', signal = ''bearish'', sig_value = the e9 - the e21\<rparr>])
      else [])"

definition ema50_signals :: "real \<Rightarrow> real option \<Rightarrow> TrendSignal list" where
  "ema50_signals current e50 =
     (if truthy e50 then
        (if current > the e50 then
           [\<lparr>indicator = ''Price vs EMA50'', signal = ''bullish'',
             sig_value = (current - the e50) / the e50 * 100\<rparr>]
         else [\<lparr>indicator = ''Price vs EMA50'', signal = ''bearish'',
                sig_value = (current - the e50) / the e50 * 100\<rparr>])
      else [])"

definition rsi_signals :: "analyzer_config \<Rightarrow> real option \<Rightarrow> TrendSignal list" where
  "rsi_signals cfg r =
     (if truthy r then
        (if the r < rsi_oversold cfg then [\<lparr>indicator = ''RSI'', signal = ''bullish'', sig_value = the r\<rparr>]
         else if the r > rsi_overbought cfg then [\<lparr>indicator = ''RSI'', signal = ''bearish'', sig_value = the r\<rparr>]
         else [\<lparr>indicator = ''RSI'', signal = ''neutral'', sig_value = the r\<rparr>])
      else [])"

definition macd_signals :: "real option \<times> real option \<times> real option \<Rightarrow> TrendSignal list" where
  "macd_signals m =
     (case m of
        (Some mv, Some ms, mh) \<Rightarrow>
          (let v = (if truthy mh then the mh else 0) in
           if mv > ms then [\<lparr>indicator = ''MACD'', signal = ''bullish'', sig_value = v\<rparr>]
           else [\<lparr>indicator = ''MACD'', signal = ''bearish'', sig_value = v\<rparr>])
      | _ \<Rightarrow> [])"

definition bollinger_signals :: "real \<Rightarrow> real option \<times> real option \<times> real option \<Rightarrow> TrendSignal list" where
  "bollinger_signals current bb =
     (case bb of (bu, bm, bl) \<Rightarrow>
        if truthy bl \<and> truthy bu then
          (let bb_position = (if the bu \<noteq> the bl then (current - the bl) / (the bu - the bl) else 0.5) in
           if bb_position < 0.2 then
             [\<lparr>indicator = ''Bollinger Bands'', signal = ''bullish'', sig_value = bb_position\<rparr>]
           else if bb_position > 0.8 then
             [\<lparr>indicator = ''Bollinger Bands'', signal = ''bearish'', sig_value = bb_position\<rparr>]
           else [])
        else [])"

text \<open>
  \<^verbatim>\<open>TrendAnalyzer.analyze\<close>. The guard is \<^verbatim>\<open>not prices or len(prices) < 21\<close>; past it the
  list is not empty, so \<^verbatim>\<open>prices[-1]\<close> is its last element. The volumes are not read.
\<close>

definition analyze :: "analyzer_config \<Rightarrow> string \<Rightarrow> real list \<Rightarrow> real list option \<Rightarrow> real option \<Rightarrow> int
    \<Rightarrow> TrendAnalysis" where
  "analyze cfg sym_name prices volumes cur_price now =
     (if prices = [] \<or> length prices < 21 then
        empty_analysis sym_name (if truthy cur_price then the cur_price else 0) now
      else
        let current = (if truthy cur_price then the cur_price else last prices);
            e9 = calculate_ema prices 9;
            e21 = calculate_ema prices 21;
            e50 = (if length prices \<ge> 50 then calculate_ema prices 50 else None);
            e200 = (if length prices \<ge> 200 then calculate_ema prices 200 else None);
            r = calculate_rsi prices 14;
            m = calculate_macd prices 12 26 9;
            bb = calculate_bollinger_bands prices 20 2;
            sigs = ema_cross_signals e9 e21 @ ema50_signals current e50 @ rsi_signals cfg r
                   @ macd_signals m @ bollinger_signals current bb;
            supports = find_support_levels prices 3;
            resistances = find_resistance_levels prices 3;
            ds = determine_trend sigs;
            sc = calculate_score sigs (fst ds) (snd ds);
            summ = generate_summary (fst ds) (snd ds) sigs
        in \<lparr>symbol = sym_name, direction = fst ds, strength = snd ds, score = sc,
            ta_current_price = current,
            support_levels = supports, resistance_levels = resistances,
            ema_9 = e9, ema_21 = e21, ema_50 = e50, ema_200 = e200,
            rsi = r, macd_value = fst m, macd_signal = fst (snd m), macd_histogram = snd (snd m),
            bb_upper = fst bb, bb_middle = fst (snd bb), bb_lower = snd (snd bb),
            signals = sigs, summary = summ, timestamp = now\<rparr>)"

text \<open>The default thresholds of the analyser and the signals used in the examples.\<close>

definition default_analyzer_config :: analyzer_config where
  "default_analyzer_config = \<lparr>rsi_oversold = 30, rsi_overbought = 70\<rparr>"

definition sig_bullish :: TrendSignal where
  "sig_bullish = \<lparr>indicator = ''EMA Cross'', signal = ''bullish'', sig_value = 1\<rparr>"

definition sig_bearish :: TrendSignal where
  "sig_bearish = \<lparr>indicator = ''MACD'', signal = ''bearish'', sig_value = -1\<rparr>"

definition sig_neutral :: TrendSignal where
  "sig_neutral = \<lparr>indicator = ''RSI'', signal = ''neutral'', sig_value = 50\<rparr>"

text \<open>
  The strength in the words of the specification (section 4.4):
  \<open>max(bull_count, bear_count)/total \<times> 100\<close>.
\<close>

definition strength_spec :: "TrendSignal list \<Rightarrow> real" where
  "strength_spec sigs =
     real (max (length (filter (\<lambda>s. signal s = ''bullish'') sigs))
               (length (filter (\<lambda>s. signal s = ''bearish'') sigs)))
       / real (length sigs) * 100"

section \<open>Crypto executor (crypto\_hunter/executor.py)\<close>

datatype CryptoOrderStatus =
  OS_PENDING | OS_SUBMITTED | OS_FILLED | OS_PARTIALLY_FILLED | OS_CANCELLED | OS_REJECTED | OS_FAILED

text \<open>The fields of the broker's \<^verbatim>\<open>CryptoOrder\<close> and \<^verbatim>\<open>TradingPair\<close> that the executor reads.\<close>

record CryptoOrder =
  co_id :: string
  co_status :: string
  co_quantity :: real
  co_filled_quantity :: real
  co_filled_price :: "real option"

record TradingPair =
  tp_symbol :: string
  min_order_price_increment :: real
  min_order_quantity_increment :: real

text \<open>
  \<^verbatim>\<open>CryptoOrderResult\<close>, without the \<^verbatim>\<open>message\<close> and the \<^verbatim>\<open>timestamp\<close>, which no
  computation looks at.
\<close>

record CryptoOrderResult =
  res_symbol :: string
  res_side :: string
  res_order_type :: string
  requested_quantity :: real
  filled_quantity :: real
  filled_price :: "real option"
  res_status :: CryptoOrderStatus
  res_order_id :: "string option"

text \<open>
  The Robinhood client as the executor sees it. Each method answers a value or raises (\<open>Inl\<close>
  with the exception's text); \<^verbatim>\<open>get_order\<close> may answer differently from one poll to the
  next, so it also takes the number of polls made before. The executor's calls are recorded in
  a log.
\<close>

record rh_client =
  is_configured :: bool
  get_trading_pairs :: "string + TradingPair list"
  place_order :: "string \<Rightarrow> string \<Rightarrow> string \<Rightarrow> real \<Rightarrow> real option \<Rightarrow> string + CryptoOrder option"
  get_order :: "nat \<Rightarrow> string \<Rightarrow> string + CryptoOrder option"
  cancel_order :: "string \<Rightarrow> string + bool"

datatype client_call =
    GetTradingPairs
  | PlaceOrder string string string real "real option"
  | GetOrder string
  | CancelOrder string

record executor_config =
  use_limit_orders :: bool
  limit_offset_pct :: real
  order_timeout_seconds :: int
  max_slippage_pct :: real

text \<open>
  The class-level cache of trading pairs, the number of \<^verbatim>\<open>get_order\<close> polls made and the log
  of the calls to the client.
\<close>

record executor_state =
  trading_pairs_cache :: "string \<rightharpoonup> TradingPair"
  cache_loaded :: bool
  polls :: nat
  calls :: "client_call list"

definition EXCLUDED_SYMBOLS :: "string set" where
  "EXCLUDED_SYMBOLS = {''USDC-USD'', ''USDT-USD'', ''DAI-USD'', ''BUSD-USD'', ''TUSD-USD''}"

text \<open>\<^verbatim>\<open>_ensure_trading_pairs_cached\<close>: the exception, if the client raised one, and the new state.\<close>

definition ensure_trading_pairs_cached :: "rh_client \<Rightarrow> executor_state \<Rightarrow> string option \<times> executor_state" where
  "ensure_trading_pairs_cached cl st =
     (if cache_loaded st then (None, st)
      else let st1 = st\<lparr>calls := calls st @ [GetTradingPairs]\<rparr> in
        case get_trading_pairs cl of
          Inl e \<Rightarrow> (Some e, st1)
        | Inr pairs \<Rightarrow>
            (None, st1\<lparr>trading_pairs_cache :=
                          fold (\<lambda>pair m. m(tp_symbol pair \<mapsto> pair)) pairs (trading_pairs_cache st1),
                        cache_loaded := True\<rparr>))"

definition get_price_precision :: "executor_state \<Rightarrow> string \<Rightarrow> real" where
  "get_price_precision st sym_name =
     (case trading_pairs_cache st sym_name of
        Some pair \<Rightarrow> min_order_price_increment pair
      | None \<Rightarrow> 0.01)"

definition get_quantity_precision :: "executor_state \<Rightarrow> string \<Rightarrow> real" where
  "get_quantity_precision st sym_name =
     (case trading_pairs_cache st sym_name of
        Some pair \<Rightarrow> min_order_quantity_increment pair
      | None \<Rightarrow> 0.00001)"

text \<open>
  \<^verbatim>\<open>_round_to_precision\<close>: the number of decimal places is
  \<^verbatim>\<open>max(0, -int(math.floor(math.log10(precision))))\<close> and the value is quantized to it with
  \<^verbatim>\<open>ROUND_DOWN\<close>, which truncates towards zero.
\<close>

definition round_to_precision :: "real \<Rightarrow> real \<Rightarrow> real" where
  "round_to_precision v precision =
     (if precision \<le> 0 then v
      else let decimal_places = nat (max 0 (- \<lfloor>log 10 precision\<rfloor>))
           in sgn v * real_of_int \<lfloor>\<bar>v\<bar> * 10 ^ decimal_places\<rfloor> / 10 ^ decimal_places)"

text \<open>
  The loop of \<^verbatim>\<open>_wait_for_fill\<close>: one poll every two seconds while \<^verbatim>\<open>elapsed < timeout\<close>,
  an exception of the poll being caught and waited out; then the final status, \<^verbatim>\<open>None\<close> if
  that last poll raises.
\<close>

function wait_loop :: "rh_client \<Rightarrow> string \<Rightarrow> int \<Rightarrow> int \<Rightarrow> executor_state \<Rightarrow> CryptoOrder option \<times> executor_state" where
  "wait_loop cl oid timeout elapsed st =
     (if elapsed < timeout then
        (case get_order cl (polls st) oid of
           Inr (Some order) \<Rightarrow>
             if co_status order \<in> set [''filled'', ''canceled'', ''failed'', ''rejected''] then
               (Some order, st\<lparr>polls := Suc (polls st), calls := calls st @ [GetOrder oid]\<rparr>)
             else wait_loop cl oid timeout (elapsed + 2)
                    (st\<lparr>polls := Suc (polls st), calls := calls st @ [GetOrder oid]\<rparr>)
         | _ \<Rightarrow> wait_loop cl oid timeout (elapsed + 2)
                  (st\<lparr>polls := Suc (polls st), calls := calls st @ [GetOrder oid]\<rparr>))
      else
        (case get_order cl (polls st) oid of
           Inl e \<Rightarrow> (None, st\<lparr>polls := Suc (polls st), calls := calls st @ [GetOrder oid]\<rparr>)
         | Inr r \<Rightarrow> (r, st\<lparr>polls := Suc (polls st), calls := calls st @ [GetOrder oid]\<rparr>)))"
  by pat_completeness auto
termination
  by (relation "measure (\<lambda>(cl, oid, timeout, elapsed, st). nat (timeout - elapsed))") auto

definition wait_for_fill :: "executor_config \<Rightarrow> rh_client \<Rightarrow> executor_state \<Rightarrow> string \<Rightarrow> int option
    \<Rightarrow> CryptoOrder option \<times> executor_state" where
  "wait_for_fill cfg cl st oid timeout_seconds =
     (let timeout = (case timeout_seconds of
                       Some t \<Rightarrow> if t \<noteq> 0 then t else order_timeout_seconds cfg
                     | None \<Rightarrow> order_timeout_seconds cfg)
      in wait_loop cl oid timeout 0 st)"

text \<open>The result of the \<^verbatim>\<open>except\<close> clause of \<^verbatim>\<open>execute_entry\<close>.\<close>

definition entry_failed :: "string \<Rightarrow> real \<Rightarrow> CryptoOrderResult" where
  "entry_failed sym_name quantity =
     \<lparr>res_symbol = sym_name, res_side = ''buy'', res_order_type = ''unknown'',
      requested_quantity = quantity, filled_quantity = 0, filled_price = None,
      res_status = OS_FAILED, res_order_id = None\<rparr>"

text \<open>The order type and the limit price that \<^verbatim>\<open>execute_entry\<close> places.\<close>

definition entry_order_params :: "executor_config \<Rightarrow> executor_state \<Rightarrow> string \<Rightarrow> real \<Rightarrow> real option
    \<Rightarrow> string \<times> real option" where
  "entry_order_params cfg st sym_name cur_price limit_price =
     (if use_limit_orders cfg then
        (''limit'',
         Some (round_to_precision
                 (case limit_price of None \<Rightarrow> cur_price * (1 + limit_offset_pct cfg) | Some l \<Rightarrow> l)
                 (get_price_precision st sym_name)))
      else (''market'', None))"

text \<open>
  The part of \<^verbatim>\<open>execute_entry\<close> after the order has been placed: the wait and the three
  outcomes. Only the last one, nothing filled, cancels the order.
\<close>

definition entry_after_place :: "executor_config \<Rightarrow> rh_client \<Rightarrow> executor_state \<Rightarrow> string \<Rightarrow> real
    \<Rightarrow> string \<Rightarrow> CryptoOrder \<Rightarrow> CryptoOrderResult \<times> executor_state" where
  "entry_after_place cfg cl st sym_name quantity order_type order =
     (case wait_for_fill cfg cl st (co_id order) None of (filled_order, st1) \<Rightarrow>
        let cancel_path =
              (if co_id order \<noteq> [] then
                 (case cancel_order cl (co_id order) of
                    Inl e \<Rightarrow> (entry_failed sym_name quantity,
                              st1\<lparr>calls := calls st1 @ [CancelOrder (co_id order)]\<rparr>)
                  | Inr _ \<Rightarrow>
                      (\<lparr>res_symbol = sym_name, res_side = ''buy'', res_order_type = order_type,
                        requested_quantity = quantity, filled_quantity = 0, filled_price = None,
                        res_status = OS_CANCELLED, res_order_id = Some (co_id order)\<rparr>,
                       st1\<lparr>calls := calls st1 @ [CancelOrder (co_id order)]\<rparr>))
               else
                 (\<lparr>res_symbol = sym_name, res_side = ''buy'', res_order_type = order_type,
                   requested_quantity = quantity, filled_quantity = 0, filled_price = None,
                   res_status = OS_CANCELLED, res_order_id = Some (co_id order)\<rparr>, st1))
        in case filled_order of
             None \<Rightarrow> cancel_path
           | Some fo \<Rightarrow>
               if co_status fo = ''filled'' then
                 (\<lparr>res_symbol = sym_name, res_side = ''buy'', res_order_type = order_type,
                   requested_quantity = quantity, filled_quantity = co_filled_quantity fo,
                   filled_price = co_filled_price fo,
                   res_status = OS_FILLED, res_order_id = Some (co_id fo)\<rparr>, st1)
               else if co_filled_quantity fo > 0 then
                 (\<lparr>res_symbol = sym_name, res_side = ''buy'', res_order_type = order_type,
                   requested_quantity = quantity, filled_quantity = co_filled_quantity fo,
                   filled_price = co_filled_price fo,
                   res_status = OS_PARTIALLY_FILLED, res_order_id = Some (co_id fo)\<rparr>, st1)
               else cancel_path)"

text \<open>\<^verbatim>\<open>CryptoExecutor.execute_entry\<close>: the result and the state of the executor afterwards.\<close>

definition execute_entry :: "executor_config \<Rightarrow> rh_client \<Rightarrow> executor_state \<Rightarrow> string \<Rightarrow> real \<Rightarrow> real
    \<Rightarrow> real option \<Rightarrow> CryptoOrderResult \<times> executor_state" where
  "execute_entry cfg cl st sym_name quantity cur_price limit_price =
     (if sym_name \<in> EXCLUDED_SYMBOLS then
        (\<lparr>res_symbol = sym_name, res_side = ''buy'', res_order_type = ''limit'',
          requested_quantity = quantity, filled_quantity = 0, filled_price = None,
          res_status = OS_REJECTED, res_order_id = None\<rparr>, st)
      else case ensure_trading_pairs_cached cl st of
        (Some e, st1) \<Rightarrow> (entry_failed sym_name quantity, st1)
      | (None, st1) \<Rightarrow>
          if \<not> is_configured cl then
            (\<lparr>res_symbol = sym_name, res_side = ''buy'',
              res_order_type = (if use_limit_orders cfg then ''limit'' else ''market''),
              requested_quantity = quantity, filled_quantity = 0, filled_price = None,
              res_status = OS_FAILED, res_order_id = None\<rparr>, st1)
          else
            let rounded_quantity = round_to_precision quantity (get_quantity_precision st1 sym_name) in
            if rounded_quantity \<le> 0 then
              (\<lparr>res_symbol = sym_name, res_side = ''buy'',
                res_order_type = (if use_limit_orders cfg then ''limit'' else ''market''),
                requested_quantity = quantity, filled_quantity = 0, filled_price = None,
                res_status = OS_REJECTED, res_order_id = None\<rparr>, st1)
            else
              case entry_order_params cfg st1 sym_name cur_price limit_price of (order_type, lp) \<Rightarrow>
                let st2 = st1\<lparr>calls := calls st1 @ [PlaceOrder sym_name ''buy'' order_type rounded_quantity lp]\<rparr> in
                case place_order cl sym_name ''buy'' order_type rounded_quantity lp of
                  Inl e \<Rightarrow> (entry_failed sym_name quantity, st2)
                | Inr None \<Rightarrow>
                    (\<lparr>res_symbol = sym_name, res_side = ''buy'', res_order_type = order_type,
                      requested_quantity = quantity, filled_quantity = 0, filled_price = None,
                      res_status = OS_FAILED, res_order_id = None\<rparr>, st2)
                | Inr (Some order) \<Rightarrow> entry_after_place cfg cl st2 sym_name quantity order_type order)"

text \<open>
  An exchange on which a market order for 10 DOGE is accepted and stays partially filled, 4 of
  10 at 0.1, for as long as it is polled; the executor with its default configuration.
\<close>

definition doge_order :: CryptoOrder where
  "doge_order = \<lparr>co_id = ''o-1'', co_status = ''open'', co_quantity = 10,
                  co_filled_quantity = 0, co_filled_price = None\<rparr>"

definition doge_partial :: CryptoOrder where
  "doge_partial = \<lparr>co_id = ''o-1'', co_status = ''partially_filled'', co_quantity = 10,
                    co_filled_quantity = 4, co_filled_price = Some 0.1\<rparr>"

definition lingering_client :: rh_client where
  "lingering_client =
     \<lparr>is_configured = True,
      get_trading_pairs = Inr [\<lparr>tp_symbol = ''DOGE-USD'', min_order_price_increment = 0.0001,
                                min_order_quantity_increment = 1\<rparr>],
      place_order = (\<lambda>s side otype q lp. Inr (Some doge_order)),
      get_order = (\<lambda>n oid. Inr (Some doge_partial)),
      cancel_order = (\<lambda>oid. Inr True)\<rparr>"

definition default_executor_config :: executor_config where
  "default_executor_config = \<lparr>use_limit_orders = False, limit_offset_pct = 0.005,
                               order_timeout_seconds = 60, max_slippage_pct = 0.01\<rparr>"

definition initial_executor_state :: executor_state where
  "initial_executor_state = \<lparr>trading_pairs_cache = Map.empty, cache_loaded = False,
                              polls = 0, calls = []\<rparr>"

section \<open>Properties of the risk managers\<close>

subsection \<open>Exit rule\<close>

text \<open>
  The equities manager does not follow the exit rule of the specification to the letter: at the
  hold limit it answers with the reason \<^verbatim>\<open>"max_hold_days"\<close>, where the rule says
  \<^verbatim>\<open>"max_hold_time"\<close>.
\<close>

theorem should_exit_counterexample:
  "RiskManager_should_exit 100 100 92 120 30 30 = (True, Some ''max_hold_days'')
   \<and> shouldExit_spec 30 100 100 92 120 30 = (True, Some ''max_hold_time'')"
  by (simp add: RiskManager_should_exit_def shouldExit_spec_def)

text \<open>
  C1 (amended). For a non-zero entry price the crypto manager's \<^verbatim>\<open>should_exit\<close> is the exit
  rule of the specification, rules applied in its order: stop loss, take profit, maximum hold
  time, trailing stop, else \<open>(False, None)\<close>. The equities manager's \<^verbatim>\<open>should_exit\<close> applies
  the first three rules in the same order, its hold limit being the argument
  \<^verbatim>\<open>max_hold_days\<close> with reason \<^verbatim>\<open>"max_hold_days"\<close>, and has no trailing stop: where the
  specification's rule would answer \<^verbatim>\<open>trailing_stop\<close> it answers \<open>(False, None)\<close>.
\<close>

theorem should_exit_rules:
  "(entry_price \<noteq> 0 \<longrightarrow>
      CryptoRiskManager_should_exit cfg current_price entry_price stop_loss take_profit hours_held
        = Inr (shouldExit_spec (max_hold_hours cfg) current_price entry_price stop_loss take_profit hours_held))
   \<and> RiskManager_should_exit current_price entry_price stop_loss take_profit days_held max_hold_days
        = (let r = shouldExit_spec (real_of_int max_hold_days) current_price entry_price stop_loss
                     take_profit (real_of_int days_held)
           in if r = (True, Some ''max_hold_time'') then (True, Some ''max_hold_days'')
              else if r = (True, Some ''trailing_stop'') then (False, None)
              else r)"
  by (simp add: CryptoRiskManager_should_exit_def RiskManager_should_exit_def shouldExit_spec_def Let_def)

theorem should_exit_rules_witness:
  "(100::real) \<noteq> 0 \<and>
   CryptoRiskManager_should_exit crypto_default_config 110 100 90 125 3 = Inr (False, None) \<and>
   CryptoRiskManager_should_exit crypto_default_config 110 100 90 125 168 = Inr (True, Some ''max_hold_time'')"
  using should_exit_rules [where entry_price = 100 and cfg = crypto_default_config
      and current_price = 110 and stop_loss = 90 and take_profit = 125 and hours_held = 3]
    should_exit_rules [where entry_price = 100 and cfg = crypto_default_config
      and current_price = 110 and stop_loss = 90 and take_profit = 125 and hours_held = 168]
  by (simp add: shouldExit_spec_def crypto_default_config_def)

subsection \<open>Kelly fraction\<close>

text \<open>
  Rounding a positive number of a known binade: with \<open>2\<^sup>5\<^sup>2 \<le> x 2\<^sup>s < 2\<^sup>5\<^sup>3\<close> the double nearest
  to \<open>x\<close> is the nearest multiple of \<open>2\<^sup>-\<^sup>s\<close>.
\<close>

lemma round_double_eval:
  fixes x :: real and s :: nat
  assumes lo: "2 ^ 52 \<le> x * 2 ^ s" and hi: "x * 2 ^ s < 2 ^ 53"
  shows "round_double x = of_int (round_half_even (x * 2 ^ s)) / 2 ^ s"
proof -
  have pw: "(0::real) < 2 ^ s" by simp
  have xpos: "0 < x"
  proof (rule ccontr)
    assume "\<not> 0 < x"
    then have "x * 2 ^ s \<le> 0" by (simp add: mult_le_0_iff)
    moreover have "(0::real) < 2 ^ 52" by simp
    ultimately show False using lo by linarith
  qed
  have p: "(2::real) powr (real_of_int (52 - int s)) = 2 ^ 52 / 2 ^ s"
    by (simp add: powr_diff powr_realpow)
  have p1: "(2::real) powr (real_of_int (52 - int s + 1)) = 2 ^ 53 / 2 ^ s"
    by (simp add: powr_diff powr_realpow)
  have "2 ^ 52 / 2 ^ s \<le> x"
    using lo pw by (simp only: pos_divide_le_eq)
  then have l: "2 powr (real_of_int (52 - int s)) \<le> x"
    by (simp only: p)
  have "x < 2 ^ 53 / 2 ^ s"
    using hi pw by (simp only: pos_less_divide_eq)
  then have h: "x < 2 powr (real_of_int (52 - int s + 1))"
    by (simp only: p1)
  have fl: "\<lfloor>log 2 x\<rfloor> = 52 - int s"
    using xpos l h floor_log_eq_powr_iff [of x 2 "52 - int s"] by simp
  have u: "(2::real) powr (- real s) = 1 / 2 ^ s"
    by (simp add: powr_minus powr_realpow inverse_eq_divide)
  show ?thesis
    using xpos by (simp add: round_double_def Let_def fl u)
qed

text \<open>
  Scenario S1 in double precision, step by step: \<open>b = 2.5\<close>, \<open>q = 0.4\<close>, \<open>b p = 1.5\<close>,
  \<open>b p - q = 1.1\<close>, \<open>kelly = 0.44000000000000006\<close> and, halved, \<open>0.22000000000000003\<close>,
  which is the double \<open>3963167672086037 / 2\<^sup>5\<^sup>4\<close>.
\<close>

lemma S1_fraction_f64:
  "RiskManager_kelly_fraction_f64 (f64_config S1_config)
      (round_double 0.6) (round_double 0.20) (round_double 0.08) = Inr (3963167672086037 / 2 ^ 54)"
proof -
  define P where "P = round_double 0.6"
  define W where "W = round_double 0.20"
  define L where "L = round_double 0.08"
  define M where "M = round_double 0.5"
  define C where "C = round_double 0.25"
  define B where "B = round_double (W / L)"
  define Q where "Q = round_double (1 - P)"
  define BP where "BP = round_double (B * P)"
  define D where "D = round_double (BP - Q)"
  define K where "K = round_double (D / B)"
  define K2 where "K2 = round_double (K * M)"
  have P: "P = 5404319552844595 / 2 ^ 53"
    unfolding P_def by (subst round_double_eval [where s = 53]) (simp_all add: round_half_even_def)
  have W: "W = 3602879701896397 / 2 ^ 54"
    unfolding W_def by (subst round_double_eval [where s = 55]) (simp_all add: round_half_even_def)
  have L: "L = 5764607523034235 / 2 ^ 56"
    unfolding L_def by (subst round_double_eval [where s = 56]) (simp_all add: round_half_even_def)
  have M: "M = 1 / 2"
    unfolding M_def by (subst round_double_eval [where s = 53]) (simp_all add: round_half_even_def)
  have C: "C = 1 / 4"
    unfolding C_def by (subst round_double_eval [where s = 54]) (simp_all add: round_half_even_def)
  have B: "B = 5 / 2"
    unfolding B_def W L by (subst round_double_eval [where s = 51]) (simp_all add: round_half_even_def)
  have Q: "Q = 3602879701896397 / 2 ^ 53"
    unfolding Q_def P by (subst round_double_eval [where s = 54]) (simp_all add: round_half_even_def)
  have BP: "BP = 3 / 2"
    unfolding BP_def B P by (subst round_double_eval [where s = 52]) (simp_all add: round_half_even_def)
  have D: "D = 2476979795053773 / 2 ^ 51"
    unfolding D_def BP Q by (subst round_double_eval [where s = 52]) (simp_all add: round_half_even_def)
  have K: "K = 3963167672086037 / 2 ^ 53"
    unfolding K_def D B by (subst round_double_eval [where s = 54]) (simp_all add: round_half_even_def)
  have K2: "K2 = 3963167672086037 / 2 ^ 54"
    unfolding K2_def K M by (subst round_double_eval [where s = 55]) (simp_all add: round_half_even_def)
  have cfg: "kelly_multiplier (f64_config S1_config) = M" "max_position_pct (f64_config S1_config) = C"
    "stop_loss_pct (f64_config S1_config) = L"
    by (simp_all add: f64_config_def S1_config_def M_def C_def L_def)
  have conds: "\<not> L \<le> 0" "L \<noteq> 0" "B \<noteq> 0" "M \<noteq> 0" "max 0 (min K2 C) = K2"
    by (simp_all add: L B M K2 C)
  have "RiskManager_kelly_fraction_f64 (f64_config S1_config) P W L = Inr K2"
    by (simp add: RiskManager_kelly_fraction_f64_def f64_div_def f64_mul_def f64_sub_def Let_def
        cfg conds B_def [symmetric] Q_def [symmetric] BP_def [symmetric] D_def [symmetric]
        K_def [symmetric] K2_def [symmetric])
  then show ?thesis
    unfolding P_def W_def L_def K2 .
qed

text \<open>The product \<^verbatim>\<open>allocated_capital * kelly\<close> with that fraction: \<open>2200.0000000000005\<close>.\<close>

lemma S1_amount_f64:
  "f64_mul (allocated_capital (f64_config S1_config)) (3963167672086037 / 2 ^ 54)
     = 4837851162214401 / 2 ^ 41"
  unfolding f64_mul_def f64_config_def S1_config_def
  by (subst round_double_eval [where s = 41]) (simp_all add: round_half_even_def)

text \<open>
  With \<^verbatim>\<open>max_position_pct = 0.5\<close> the equities manager returns 0.5: its upper bound is
  \<^verbatim>\<open>max_position_pct\<close> alone, not \<open>min(max_position_pct, 0.25)\<close>.
\<close>

theorem kelly_counterexample:
  "RiskManager_kelly_fraction (S1_config\<lparr>max_position_pct := 0.5, kelly_multiplier := 1\<rparr>) []
      (Some 1) (Some 0.2) (Some 0.08) = Inr 0.5
   \<and> kelly_spec 0.25 (S1_config\<lparr>max_position_pct := 0.5, kelly_multiplier := 1\<rparr>) 1 0.2 0.08 = 0.25"
  by (simp add: RiskManager_kelly_fraction_def kelly_inputs_def kelly_spec_def S1_config_def Let_def)

text \<open>
  C2 (amended). With \<open>L\<close> replaced by the default stop-loss percentage when \<open>L \<le> 0\<close>, and
  for a non-zero average win and a non-zero resulting \<open>L\<close>: the crypto manager returns
  \<open>((W/L) p - (1 - p))/(W/L)\<close> times the Kelly multiplier clamped to
  \<open>[0, min(max_position_pct, 0.15)]\<close>; the equities manager (for a non-zero Kelly multiplier)
  returns it clamped to \<open>[0, max_position_pct]\<close>, which is \<open>[0, min(max_position_pct, 0.25)]\<close>
  whenever \<open>max_position_pct \<le> 0.25\<close>. In scenario S1 (win rate 0.6, \<open>W = 0.20\<close>,
  \<open>L = 0.08\<close>, multiplier 0.5, cap 0.25, allocated 10000) the equities manager, computing in
  double precision, returns \<open>0.22000000000000003\<close>, that is 0.22 up to an error below
  \<open>10\<^sup>-\<^sup>1\<^sup>6\<close>, and \<^verbatim>\<open>allocated_capital * kelly\<close> is \<open>2200.0000000000005\<close>, that is 2200 up to an
  error below \<open>10\<^sup>-\<^sup>1\<^sup>2\<close>: the decimal values 0.22 and 2200 are those of exact arithmetic.
\<close>

theorem kelly_fraction_formula:
  "(w \<noteq> 0 \<and> (if l \<le> 0 then stop_loss_pct ccfg else l) \<noteq> 0 \<longrightarrow>
      CryptoRiskManager_kelly_fraction ccfg h (Some p) (Some w) (Some l) = Inr (kelly_spec 0.15 ccfg p w l))
   \<and> (w \<noteq> 0 \<and> (if l \<le> 0 then stop_loss_pct cfg else l) \<noteq> 0 \<and> kelly_multiplier cfg \<noteq> 0 \<longrightarrow>
      RiskManager_kelly_fraction cfg h (Some p) (Some w) (Some l) =
        Inr (let l' = (if l \<le> 0 then stop_loss_pct cfg else l) in
             max 0 (min (((w / l') * p - (1 - p)) / (w / l') * kelly_multiplier cfg) (max_position_pct cfg))))
   \<and> (w \<noteq> 0 \<and> (if l \<le> 0 then stop_loss_pct cfg else l) \<noteq> 0 \<and> kelly_multiplier cfg \<noteq> 0
        \<and> max_position_pct cfg \<le> 0.25 \<longrightarrow>
      RiskManager_kelly_fraction cfg h (Some p) (Some w) (Some l) = Inr (kelly_spec 0.25 cfg p w l))
   \<and> RiskManager_kelly_fraction_f64 (f64_config S1_config)
         (round_double 0.6) (round_double 0.20) (round_double 0.08) = Inr (3963167672086037 / 2 ^ 54)
   \<and> \<bar>3963167672086037 / 2 ^ 54 - (0.22::real)\<bar> < 1 / 10 ^ 16
   \<and> f64_mul (allocated_capital (f64_config S1_config)) (3963167672086037 / 2 ^ 54)
         = 4837851162214401 / 2 ^ 41
   \<and> \<bar>4837851162214401 / 2 ^ 41 - (2200::real)\<bar> < 1 / 10 ^ 12"
  apply (intro conjI impI)
        apply (simp add: CryptoRiskManager_kelly_fraction_def kelly_inputs_def kelly_spec_def Let_def ac_simps)
       apply (simp add: RiskManager_kelly_fraction_def kelly_inputs_def Let_def ac_simps)
      apply (simp add: RiskManager_kelly_fraction_def kelly_inputs_def kelly_spec_def Let_def ac_simps)
     apply (rule S1_fraction_f64)
    apply simp
   apply (rule S1_amount_f64)
  apply simp
  done

theorem kelly_fraction_formula_witness:
  "CryptoRiskManager_kelly_fraction crypto_default_config [] (Some 0.6) (Some 0.20) (Some 0.08) = Inr 0.15
   \<and> RiskManager_kelly_fraction S1_config [] (Some 0.5) (Some 0.1) (Some 0.1) = Inr 0"
  using kelly_fraction_formula [where w = "0.20" and l = "0.08" and ccfg = crypto_default_config
      and cfg = S1_config and h = "[]" and p = "0.6"]
    kelly_fraction_formula [where w = "0.1" and l = "0.1" and ccfg = crypto_default_config
      and cfg = S1_config and h = "[]" and p = "0.5"]
  by (simp add: kelly_spec_def crypto_default_config_def S1_config_def Let_def)

subsection \<open>Stop loss, then exit\<close>

text \<open>
  C9. For every entry price \<open>entry > 0\<close> and stop-loss fraction in \<open>(0, 1)\<close>,
  \<^verbatim>\<open>calculate_stop_loss\<close> gives \<open>entry * (1 - pct)\<close> and \<^verbatim>\<open>should_exit\<close> evaluated at that
  price returns \<open>(True, stop_loss)\<close>, on the equities and on the crypto manager. With \<open>entry = 100\<close>, \<open>stop_loss_pct = 0.08\<close> and
  \<open>take_profit_pct = 0.20\<close> on the equities manager the stop is 92, the target is 120,
  \<^verbatim>\<open>should_exit\<close> at 91.99 returns \<open>(True, stop_loss)\<close> and at 120 returns
  \<open>(True, take_profit)\<close>.
\<close>

theorem stop_then_exit:
  "(0 < entry \<and> 0 < stop_loss_pct cfg \<and> stop_loss_pct cfg < 1 \<longrightarrow>
      RiskManager_should_exit (RiskManager_calculate_stop_loss cfg entry None) entry
         (RiskManager_calculate_stop_loss cfg entry None) take_profit days_held max_hold_days
        = (True, Some ''stop_loss'')
      \<and> RiskManager_calculate_stop_loss cfg entry None = entry * (1 - stop_loss_pct cfg))
   \<and> (0 < entry \<and> 0 < stop_loss_pct ccfg \<and> stop_loss_pct ccfg < 1 \<longrightarrow>
      CryptoRiskManager_should_exit ccfg (CryptoRiskManager_calculate_stop_loss ccfg entry None) entry
         (CryptoRiskManager_calculate_stop_loss ccfg entry None) take_profit hours_held
        = Inr (True, Some ''stop_loss'')
      \<and> CryptoRiskManager_calculate_stop_loss ccfg entry None = entry * (1 - stop_loss_pct ccfg))
   \<and> RiskManager_calculate_stop_loss S1_config 100 None = 92
   \<and> calculate_take_profit S1_config 100 (Some 92) = 120
   \<and> RiskManager_should_exit 91.99 100 92 120 0 30 = (True, Some ''stop_loss'')
   \<and> RiskManager_should_exit 120 100 92 120 0 30 = (True, Some ''take_profit'')"
  by (simp add: RiskManager_should_exit_def RiskManager_calculate_stop_loss_def
      CryptoRiskManager_should_exit_def CryptoRiskManager_calculate_stop_loss_def
      calculate_take_profit_def S1_config_def)

theorem stop_then_exit_witness:
  "(0::real) < 100 \<and> 0 < stop_loss_pct S1_config \<and> stop_loss_pct S1_config < 1
   \<and> 0 < stop_loss_pct crypto_default_config \<and> stop_loss_pct crypto_default_config < 1
   \<and> RiskManager_should_exit 92 100 92 120 0 30 = (True, Some ''stop_loss'')
   \<and> CryptoRiskManager_should_exit crypto_default_config 90 100 90 125 0 = Inr (True, Some ''stop_loss'')"
  using stop_then_exit [where entry = 100 and cfg = S1_config and take_profit = 120
      and days_held = 0 and max_hold_days = 30]
    stop_then_exit [where entry = 100 and ccfg = crypto_default_config and take_profit = 125
      and hours_held = 0]
  by (simp add: S1_config_def crypto_default_config_def RiskManager_calculate_stop_loss_def
      CryptoRiskManager_calculate_stop_loss_def CryptoRiskManager_should_exit_def)

section \<open>Properties of the recommendation lifecycle\<close>

lemma find_commit_row:
  "(\<And>r. rec_id (f r) = rec_id r) \<Longrightarrow>
   find (\<lambda>r. rec_id r = j) (map (\<lambda>r. if rec_id r = i then f r else r) db)
     = (if j = i then map_option f (find (\<lambda>r. rec_id r = j) db) else find (\<lambda>r. rec_id r = j) db)"
  by (induction db) auto

text \<open>
  C3. The lifecycle is strict. \<^verbatim>\<open>approve_recommendation\<close> returns a row only if the stored row
  was pending and its expiry had not passed, and it returns \<^verbatim>\<open>None\<close> whenever
  \<open>now > expires_at\<close>; \<^verbatim>\<open>reject_recommendation\<close> returns a row only if the stored row was
  pending; \<^verbatim>\<open>execute_recommendation\<close> succeeds only if the stored row was approved. Approving
  an approved recommendation and rejecting an executed one are refused and leave the table as it
  was.
\<close>

theorem lifecycle_strict:
  "(approve_recommendation db i now = (db', Some r') \<longrightarrow>
      (\<exists>r. get_recommendation_by_id db i = Some r \<and> status r = PENDING \<and> \<not> now > expires_at r
           \<and> status r' = APPROVED))
   \<and> (get_recommendation_by_id db i = Some r \<and> now > expires_at r \<longrightarrow>
        snd (approve_recommendation db i now) = None)
   \<and> (reject_recommendation db i reason now = (db', Some r') \<longrightarrow>
      (\<exists>r. get_recommendation_by_id db i = Some r \<and> status r = PENDING \<and> status r' = REJECTED))
   \<and> (execute_recommendation ib db i now = (db', ExecSuccess oid price act) \<longrightarrow>
      (\<exists>r. get_recommendation_by_id db i = Some r \<and> status r = APPROVED))
   \<and> (get_recommendation_by_id db i = Some r \<and> status r = APPROVED \<longrightarrow>
        approve_recommendation db i now = (db, None))
   \<and> (get_recommendation_by_id db i = Some r \<and> status r = EXECUTED \<longrightarrow>
        reject_recommendation db i reason now = (db, None))"
  by (auto simp: approve_recommendation_def reject_recommendation_def execute_recommendation_def
      split: option.splits if_splits sum.splits prod.splits)

text \<open>
  The theorem at the rows of scenario S5: a second approval of the approved row and a rejection
  of the executed row are refused; the approval at time 1, the rejection at time 1 and the
  execution of the approved row at time 2 go through, from the states the theorem names.
\<close>

theorem lifecycle_strict_witness:
  "approve_recommendation [sample_rec\<lparr>status := APPROVED\<rparr>] 1 1 = ([sample_rec\<lparr>status := APPROVED\<rparr>], None)
   \<and> reject_recommendation [sample_rec\<lparr>status := EXECUTED\<rparr>] 1 None 1 = ([sample_rec\<lparr>status := EXECUTED\<rparr>], None)
   \<and> snd (approve_recommendation [sample_rec] 1 5) = None
   \<and> approve_recommendation [sample_rec] 1 1
        = ([sample_rec\<lparr>status := APPROVED, approved_at := Some 1\<rparr>],
           Some (sample_rec\<lparr>status := APPROVED, approved_at := Some 1\<rparr>))
   \<and> get_recommendation_by_id [sample_rec] 1 = Some sample_rec \<and> status sample_rec = PENDING
   \<and> \<not> 1 > expires_at sample_rec
   \<and> snd (reject_recommendation [sample_rec] 1 None 1) = Some (sample_rec\<lparr>status := REJECTED, rejected_at := Some 1\<rparr>)
   \<and> snd (execute_recommendation sample_ib [sample_rec\<lparr>status := APPROVED\<rparr>] 1 2)
        = ExecSuccess ''X'' (Some 0.60) ''open_put_spread''"
  using lifecycle_strict [where db = "[sample_rec\<lparr>status := APPROVED\<rparr>]" and i = 1 and now = 1
      and r = "sample_rec\<lparr>status := APPROVED\<rparr>"]
    lifecycle_strict [where db = "[sample_rec\<lparr>status := EXECUTED\<rparr>]" and i = 1 and now = 1
      and r = "sample_rec\<lparr>status := EXECUTED\<rparr>" and reason = None]
    lifecycle_strict [where db = "[sample_rec]" and i = 1 and now = 5 and r = sample_rec]
  by (simp add: get_recommendation_by_id_def sample_rec_def sample_ib_def approve_recommendation_def
      reject_recommendation_def execute_recommendation_def dispatch_action_def commit_row_def)

text \<open>
  C10. Approving a pending recommendation whose \<^verbatim>\<open>expires_at\<close> is in the past returns
  \<^verbatim>\<open>None\<close>, and the failed approval is not state-preserving: the stored row now has status
  \<^verbatim>\<open>EXPIRED\<close>. The other rows are as they were.
\<close>

theorem approve_expired_side_effect:
  assumes "get_recommendation_by_id db i = Some r" and "status r = PENDING" and "expires_at r < now"
  shows "snd (approve_recommendation db i now) = None
   \<and> get_recommendation_by_id (fst (approve_recommendation db i now)) i = Some (r\<lparr>status := EXPIRED\<rparr>)
   \<and> (\<forall>j. j \<noteq> i \<longrightarrow> get_recommendation_by_id (fst (approve_recommendation db i now)) j
                        = get_recommendation_by_id db j)"
  using assms
  by (simp add: approve_recommendation_def get_recommendation_by_id_def commit_row_def find_commit_row)

theorem approve_expired_side_effect_witness:
  "get_recommendation_by_id [sample_rec] 1 = Some sample_rec \<and> status sample_rec = PENDING
   \<and> expires_at sample_rec < 5
   \<and> approve_recommendation [sample_rec] 1 5 = ([sample_rec\<lparr>status := EXPIRED\<rparr>], None)"
  using approve_expired_side_effect [of "[sample_rec]" 1 sample_rec 5]
  by (simp add: get_recommendation_by_id_def sample_rec_def approve_recommendation_def commit_row_def)

text \<open>
  The sweep leaves an approved recommendation alone, however long ago it expired: its
  \<^verbatim>\<open>WHERE\<close> clause selects pending rows only.
\<close>

theorem sweep_counterexample:
  "expires_at (sample_rec\<lparr>status := APPROVED\<rparr>) < 10
   \<and> fst (expire_old_recommendations [sample_rec\<lparr>status := APPROVED\<rparr>] 10)
       = [sample_rec\<lparr>status := APPROVED\<rparr>]"
  by (simp add: expire_old_recommendations_def sample_rec_def)

text \<open>
  C4 (amended). After \<^verbatim>\<open>expire_old_recommendations\<close> has run at time \<open>now\<close>, every row that
  was pending with \<open>expires_at < now\<close> has status \<^verbatim>\<open>EXPIRED\<close> (and is otherwise unchanged), and
  every other row is exactly as it was.
\<close>

theorem sweep_expires_pending:
  "length (fst (expire_old_recommendations db now)) = length db
   \<and> (\<forall>k < length db.
        (status (db ! k) = PENDING \<and> expires_at (db ! k) < now \<longrightarrow>
           fst (expire_old_recommendations db now) ! k = (db ! k)\<lparr>status := EXPIRED\<rparr>)
        \<and> (\<not> (status (db ! k) = PENDING \<and> expires_at (db ! k) < now) \<longrightarrow>
           fst (expire_old_recommendations db now) ! k = db ! k))"
  by (simp add: expire_old_recommendations_def)

theorem sweep_expires_pending_witness:
  "fst (expire_old_recommendations [sample_rec, sample_rec\<lparr>rec_id := 2, expires_at := 9\<rparr>] 5) ! 0
      = sample_rec\<lparr>status := EXPIRED\<rparr>
   \<and> fst (expire_old_recommendations [sample_rec, sample_rec\<lparr>rec_id := 2, expires_at := 9\<rparr>] 5) ! 1
      = sample_rec\<lparr>rec_id := 2, expires_at := 9\<rparr>"
  using sweep_expires_pending [of "[sample_rec, sample_rec\<lparr>rec_id := 2, expires_at := 9\<rparr>]" 5]
  by (simp add: sample_rec_def)

section \<open>Properties of the regime detection\<close>

text \<open>
  A VIX exactly at the threshold 45.0 does not trigger the defence: on a first run the regime
  is \<^verbatim>\<open>NORMAL_BULL\<close>.
\<close>

theorem vix_boundary_counterexample:
  "vix \<lparr>qqq_price = 562.43, vix = 45.0, iv_7day_atm = 21.4, source = ''live''\<rparr> \<ge> VIX_SHUTDOWN_THRESHOLD
   \<and> classify_regime VIX_SHUTDOWN_THRESHOLD None None
       \<lparr>qqq_price = 562.43, vix = 45.0, iv_7day_atm = 21.4, source = ''live''\<rparr> = NORMAL_BULL"
  by (simp add: classify_regime_def VIX_SHUTDOWN_THRESHOLD_def)

text \<open>
  C6 (amended). In every regime state, if the VIX value observed by \<^verbatim>\<open>detect_regime\<close> is
  strictly greater than the shutdown threshold, the result is \<^verbatim>\<open>DEFENSE_TRIGGER\<close>. The VIX
  that \<^verbatim>\<open>get_market_data\<close> supplies is the constant 17.0, so for \<^verbatim>\<open>detect_regime\<close> as a whole
  this is the case of a threshold below 17.
\<close>

theorem vix_above_threshold:
  "(vix md > threshold \<longrightarrow> classify_regime threshold current_regime last_strike md = DEFENSE_TRIGGER)
   \<and> (17 > threshold \<longrightarrow> detect_regime threshold current_regime last_strike ib_conn quote = DEFENSE_TRIGGER)"
  by (auto simp: classify_regime_def detect_regime_def get_market_data_def Let_def
      split: sum.splits option.splits)

theorem vix_above_threshold_witness:
  "classify_regime VIX_SHUTDOWN_THRESHOLD None None
       \<lparr>qqq_price = 562.43, vix = 45.01, iv_7day_atm = 21.4, source = ''live''\<rparr> = DEFENSE_TRIGGER
   \<and> detect_regime 16.5 None None False (Inr None) = DEFENSE_TRIGGER"
  using vix_above_threshold [where md = "\<lparr>qqq_price = 562.43, vix = 45.01, iv_7day_atm = 21.4, source = ''live''\<rparr>"
      and threshold = VIX_SHUTDOWN_THRESHOLD and current_regime = None and last_strike = None]
    vix_above_threshold [where threshold = "16.5" and current_regime = None and last_strike = None
      and ib_conn = False and quote = "Inr None"
      and md = "\<lparr>qqq_price = 562.43, vix = 45.01, iv_7day_atm = 21.4, source = ''live''\<rparr>"]
  by (simp add: VIX_SHUTDOWN_THRESHOLD_def)

section \<open>Properties of the trend analyser\<close>

text \<open>
  With one bullish, one bearish and one neutral signal the vote is tied: the strength is the
  constant 50, not \<open>max(1, 1)/3 \<times> 100\<close>.
\<close>

theorem tie_strength_counterexample:
  "[sig_bullish, sig_bearish, sig_neutral] \<noteq> []
   \<and> determine_trend [sig_bullish, sig_bearish, sig_neutral] = (NEUTRAL, 50)
   \<and> strength_spec [sig_bullish, sig_bearish, sig_neutral] = 100 / 3"
  by (simp add: determine_trend_def strength_spec_def sig_bullish_def sig_bearish_def sig_neutral_def)

text \<open>
  C7 (amended). For every non-empty list of signals the direction is bullish or bearish
  according to the majority of bullish over bearish signals, a tie giving neutral; the strength
  is \<open>max(bullish_count, bearish_count)/total \<times> 100\<close> when the counts differ and 50 on a tie;
  and the score is \<open>(50 + (bullish_count/total - 0.5) \<times> 100) \<times> (0.5 + strength/200)\<close> with this
  strength, clamped to \<open>[0, 100]\<close>.
\<close>

theorem trend_direction_strength_score:
  assumes "sigs \<noteq> []"
  defines "b \<equiv> length (filter (\<lambda>s. signal s = ''bullish'') sigs)"
    and "r \<equiv> length (filter (\<lambda>s. signal s = ''bearish'') sigs)"
    and "t \<equiv> length sigs"
  shows "fst (determine_trend sigs) = (if b > r then BULLISH else if r > b then BEARISH else NEUTRAL)
   \<and> snd (determine_trend sigs) = (if b = r then 50 else strength_spec sigs)
   \<and> calculate_score sigs (fst (determine_trend sigs)) (snd (determine_trend sigs))
       = max 0 (min 100 ((50 + (real b / real t - 0.5) * 100) * (0.5 + snd (determine_trend sigs) / 200)))"
  using assms
  by (auto simp: determine_trend_def calculate_score_def strength_spec_def Let_def max_def)

theorem trend_direction_strength_score_witness:
  "[sig_bullish, sig_bullish, sig_bearish, sig_neutral] \<noteq> []
   \<and> determine_trend [sig_bullish, sig_bullish, sig_bearish, sig_neutral] = (BULLISH, 50)
   \<and> calculate_score [sig_bullish, sig_bullish, sig_bearish, sig_neutral] BULLISH 50 = 37.5"
  using trend_direction_strength_score [of "[sig_bullish, sig_bullish, sig_bearish, sig_neutral]"]
  by (simp add: strength_spec_def determine_trend_def calculate_score_def sig_bullish_def sig_bearish_def
      sig_neutral_def)

text \<open>A series of length 20 is answered with the insufficient-data envelope.\<close>

theorem analyze_length_20_counterexample:
  "length (replicate 20 (100::real)) \<ge> 20
   \<and> analyze default_analyzer_config ''BTC-USD'' (replicate 20 100) None None 0
       = empty_analysis ''BTC-USD'' 0 0"
  by (simp add: analyze_def truthy_def)

text \<open>
  C8 (amended). \<^verbatim>\<open>analyze\<close> returns the insufficient-data envelope (direction neutral,
  strength 0, score 50, no signals) for every price series with fewer than 21 points, lengths 19
  and 20 included, and a full analysis for every series of at least 21 points: its EMA 9,
  EMA 21, RSI and Bollinger middle band are computed, so it is not the envelope.
\<close>

theorem analyze_envelope_threshold:
  "(length prices < 21 \<longrightarrow>
      analyze cfg sym_name prices volumes cur_price now
        = empty_analysis sym_name (if truthy cur_price then the cur_price else 0) now
      \<and> direction (analyze cfg sym_name prices volumes cur_price now) = NEUTRAL
      \<and> strength (analyze cfg sym_name prices volumes cur_price now) = 0
      \<and> score (analyze cfg sym_name prices volumes cur_price now) = 50
      \<and> signals (analyze cfg sym_name prices volumes cur_price now) = [])
   \<and> (length prices \<ge> 21 \<longrightarrow>
      ema_9 (analyze cfg sym_name prices volumes cur_price now) \<noteq> None
      \<and> ema_21 (analyze cfg sym_name prices volumes cur_price now) \<noteq> None
      \<and> rsi (analyze cfg sym_name prices volumes cur_price now) \<noteq> None
      \<and> bb_middle (analyze cfg sym_name prices volumes cur_price now) \<noteq> None
      \<and> (\<forall>p t. analyze cfg sym_name prices volumes cur_price now \<noteq> empty_analysis sym_name p t))"
proof (intro conjI impI)
  assume short: "length prices < 21"
  then show "analyze cfg sym_name prices volumes cur_price now
        = empty_analysis sym_name (if truthy cur_price then the cur_price else 0) now"
    by (simp add: analyze_def)
  then show "direction (analyze cfg sym_name prices volumes cur_price now) = NEUTRAL"
    "strength (analyze cfg sym_name prices volumes cur_price now) = 0"
    "score (analyze cfg sym_name prices volumes cur_price now) = 50"
    "signals (analyze cfg sym_name prices volumes cur_price now) = []"
    by (simp_all add: empty_analysis_def)
next
  assume long: "length prices \<ge> 21"
  then have ne: "prices \<noteq> []" by auto
  from long show e9: "ema_9 (analyze cfg sym_name prices volumes cur_price now) \<noteq> None"
    using ne by (simp add: analyze_def Let_def calculate_ema_def)
  from long show "ema_21 (analyze cfg sym_name prices volumes cur_price now) \<noteq> None"
    using ne by (simp add: analyze_def Let_def calculate_ema_def)
  from long show "rsi (analyze cfg sym_name prices volumes cur_price now) \<noteq> None"
    using ne by (simp add: analyze_def Let_def calculate_rsi_def)
  from long show "bb_middle (analyze cfg sym_name prices volumes cur_price now) \<noteq> None"
    using ne by (simp add: analyze_def Let_def calculate_bollinger_bands_def)
  show "\<forall>p t. analyze cfg sym_name prices volumes cur_price now \<noteq> empty_analysis sym_name p t"
  proof (intro allI notI)
    fix p t
    assume "analyze cfg sym_name prices volumes cur_price now = empty_analysis sym_name p t"
    then have "ema_9 (analyze cfg sym_name prices volumes cur_price now) = None"
      by (simp add: empty_analysis_def)
    with e9 show False by simp
  qed
qed

theorem analyze_envelope_threshold_witness:
  "length (replicate 19 (100::real)) < 21 \<and> length (replicate 20 (100::real)) < 21
   \<and> length (replicate 21 (100::real)) \<ge> 21
   \<and> analyze default_analyzer_config ''BTC-USD'' (replicate 19 100) None None 0 = empty_analysis ''BTC-USD'' 0 0
   \<and> analyze default_analyzer_config ''BTC-USD'' (replicate 20 100) None None 0 = empty_analysis ''BTC-USD'' 0 0
   \<and> ema_21 (analyze default_analyzer_config ''BTC-USD'' (replicate 21 100) None None 0) \<noteq> None
   \<and> analyze default_analyzer_config ''BTC-USD'' (replicate 21 100) None None 0 \<noteq> empty_analysis ''BTC-USD'' 0 0"
  using analyze_envelope_threshold [where prices = "replicate 19 100" and cfg = default_analyzer_config
      and sym_name = "''BTC-USD''" and volumes = None and cur_price = None and now = 0]
    analyze_envelope_threshold [where prices = "replicate 20 100" and cfg = default_analyzer_config
      and sym_name = "''BTC-USD''" and volumes = None and cur_price = None and now = 0]
    analyze_envelope_threshold [where prices = "replicate 21 100" and cfg = default_analyzer_config
      and sym_name = "''BTC-USD''" and volumes = None and cur_price = None and now = 0]
  by (simp add: truthy_def)

section \<open>Properties of the crypto executor\<close>

text \<open>
  An order that every poll reports in the same non-terminal state outlasts the wait:
  \<^verbatim>\<open>_wait_for_fill\<close> returns it as the final status, having called nothing but \<^verbatim>\<open>get_order\<close>.
\<close>

lemma wait_loop_lingering:
  assumes "\<And>n. get_order cl n oid = Inr (Some fo)"
    and "co_status fo \<notin> set [''filled'', ''canceled'', ''failed'', ''rejected'']"
  shows "fst (wait_loop cl oid timeout elapsed st) = Some fo
         \<and> set (calls (snd (wait_loop cl oid timeout elapsed st))) \<subseteq> set (calls st) \<union> {GetOrder oid}"
  using assms
proof (induction cl oid timeout elapsed st rule: wait_loop.induct)
  case (1 cl oid timeout elapsed st)
  show ?case
  proof (cases "elapsed < timeout")
    case True
    with 1 show ?thesis
      by (subst (1 2) wait_loop.simps) (auto)
  next
    case False
    with 1 show ?thesis
      by (subst (1 2) wait_loop.simps) (auto)
  qed
qed


text \<open>
  C5, as the code has it. When the wait on an entry order times out and the order is partially
  filled (a filled quantity above zero and below the requested one), \<^verbatim>\<open>execute_entry\<close>
  returns a result with status \<^verbatim>\<open>PARTIALLY_FILLED\<close> that carries the filled quantity and the
  filled price, but it makes no call of \<^verbatim>\<open>cancel_order\<close>: the unfilled remainder stays
  open at the broker. Only the branch for an order with nothing filled cancels.
\<close>

theorem partial_fill_not_cancelled:
  assumes "sym_name \<notin> EXCLUDED_SYMBOLS"
    and "ensure_trading_pairs_cached cl st = (None, st1)"
    and "is_configured cl"
    and "0 < round_to_precision quantity (get_quantity_precision st1 sym_name)"
    and "place_order cl sym_name ''buy'' (fst (entry_order_params cfg st1 sym_name cur_price limit_price))
           (round_to_precision quantity (get_quantity_precision st1 sym_name))
           (snd (entry_order_params cfg st1 sym_name cur_price limit_price)) = Inr (Some order)"
    and "\<And>n. get_order cl n (co_id order) = Inr (Some fo)"
    and "co_status fo \<notin> set [''filled'', ''canceled'', ''failed'', ''rejected'']"
    and "0 < co_filled_quantity fo" and "co_filled_quantity fo < quantity"
  shows "res_status (fst (execute_entry cfg cl st sym_name quantity cur_price limit_price)) = OS_PARTIALLY_FILLED
    \<and> filled_quantity (fst (execute_entry cfg cl st sym_name quantity cur_price limit_price)) = co_filled_quantity fo
    \<and> filled_price (fst (execute_entry cfg cl st sym_name quantity cur_price limit_price)) = co_filled_price fo
    \<and> (\<forall>oid. CancelOrder oid \<in> set (calls (snd (execute_entry cfg cl st sym_name quantity cur_price limit_price)))
           \<longrightarrow> CancelOrder oid \<in> set (calls st))"
proof -
  obtain otype lp where params: "entry_order_params cfg st1 sym_name cur_price limit_price = (otype, lp)"
    by (cases "entry_order_params cfg st1 sym_name cur_price limit_price")
  define rq where "rq = round_to_precision quantity (get_quantity_precision st1 sym_name)"
  define st2 where "st2 = st1\<lparr>calls := calls st1 @ [PlaceOrder sym_name ''buy'' otype rq lp]\<rparr>"
  define t where "t = order_timeout_seconds cfg"
  have w: "fst (wait_loop cl (co_id order) t 0 st2) = Some fo"
    and c: "set (calls (snd (wait_loop cl (co_id order) t 0 st2))) \<subseteq> set (calls st2) \<union> {GetOrder (co_id order)}"
    using wait_loop_lingering [OF assms(6) assms(7)] by blast+
  have st1_calls: "set (calls st1) \<subseteq> set (calls st) \<union> {GetTradingPairs}"
    using assms(2) by (auto simp: ensure_trading_pairs_cached_def Let_def split: if_splits sum.splits)
  have after: "entry_after_place cfg cl st2 sym_name quantity otype order
      = (\<lparr>res_symbol = sym_name, res_side = ''buy'', res_order_type = otype,
           requested_quantity = quantity, filled_quantity = co_filled_quantity fo,
           filled_price = co_filled_price fo,
           res_status = OS_PARTIALLY_FILLED, res_order_id = Some (co_id fo)\<rparr>,
         snd (wait_loop cl (co_id order) t 0 st2))"
    using w assms(7) assms(8)
    by (cases "wait_loop cl (co_id order) t 0 st2")
       (auto simp: entry_after_place_def wait_for_fill_def t_def Let_def)
  have ex: "execute_entry cfg cl st sym_name quantity cur_price limit_price
      = entry_after_place cfg cl st2 sym_name quantity otype order"
    using assms(1-5) params
    by (simp add: execute_entry_def Let_def rq_def st2_def)
  have "\<forall>oid. CancelOrder oid \<in> set (calls (snd (wait_loop cl (co_id order) t 0 st2)))
           \<longrightarrow> CancelOrder oid \<in> set (calls st)"
    using c st1_calls by (auto simp: st2_def)
  then show ?thesis
    by (simp add: ex after)
qed

theorem partial_fill_not_cancelled_witness:
  "res_status (fst (execute_entry default_executor_config lingering_client initial_executor_state
                      ''DOGE-USD'' 10 0.1 None)) = OS_PARTIALLY_FILLED
   \<and> filled_quantity (fst (execute_entry default_executor_config lingering_client initial_executor_state
                      ''DOGE-USD'' 10 0.1 None)) = 4
   \<and> filled_price (fst (execute_entry default_executor_config lingering_client initial_executor_state
                      ''DOGE-USD'' 10 0.1 None)) = Some 0.1
   \<and> (\<forall>oid. CancelOrder oid \<notin> set (calls (snd (execute_entry default_executor_config lingering_client
                      initial_executor_state ''DOGE-USD'' 10 0.1 None))))"
proof -
  define st1 where "st1 = initial_executor_state\<lparr>calls := [GetTradingPairs],
      trading_pairs_cache := [''DOGE-USD'' \<mapsto> \<lparr>tp_symbol = ''DOGE-USD'', min_order_price_increment = 0.0001,
                                min_order_quantity_increment = 1\<rparr>],
      cache_loaded := True\<rparr>"
  have a1: "''DOGE-USD'' \<notin> EXCLUDED_SYMBOLS"
    by (simp add: EXCLUDED_SYMBOLS_def)
  have a2: "ensure_trading_pairs_cached lingering_client initial_executor_state = (None, st1)"
    by (simp add: ensure_trading_pairs_cached_def lingering_client_def initial_executor_state_def st1_def)
  have a3: "is_configured lingering_client"
    by (simp add: lingering_client_def)
  have qp: "get_quantity_precision st1 ''DOGE-USD'' = 1"
    by (simp add: get_quantity_precision_def st1_def)
  have rq: "round_to_precision 10 (get_quantity_precision st1 ''DOGE-USD'') = 10"
    by (simp add: qp round_to_precision_def)
  have a4: "0 < round_to_precision 10 (get_quantity_precision st1 ''DOGE-USD'')"
    by (simp add: rq)
  have a5: "place_order lingering_client ''DOGE-USD'' ''buy''
           (fst (entry_order_params default_executor_config st1 ''DOGE-USD'' 0.1 None))
           (round_to_precision 10 (get_quantity_precision st1 ''DOGE-USD''))
           (snd (entry_order_params default_executor_config st1 ''DOGE-USD'' 0.1 None)) = Inr (Some doge_order)"
    by (simp add: lingering_client_def)
  have a6: "\<And>n. get_order lingering_client n (co_id doge_order) = Inr (Some doge_partial)"
    by (simp add: lingering_client_def)
  have a7: "co_status doge_partial \<notin> set [''filled'', ''canceled'', ''failed'', ''rejected'']"
    by (simp add: doge_partial_def)
  have a8: "0 < co_filled_quantity doge_partial" "co_filled_quantity doge_partial < 10"
    by (simp_all add: doge_partial_def)
  show ?thesis
    using partial_fill_not_cancelled [OF a1 a2 a3 a4 a5 a6 a7 a8]
    by (simp add: doge_partial_def initial_executor_state_def)
qed

end
